theory Spec2Isabelle
  imports Main "HOL-Library.AList"
begin

section \<open>The init command of create-roblox-ts (src/init.ts)\<close>

text \<open>
  The command is one asynchronous function, \<open>init\<close>, that probes the host for tools,
  resolves its options from flags and prompts, checks the working directory for
  paths it could overwrite, and then runs the scaffold steps in a fixed order.
  The embedding is a function from the inputs of a run (the flags, the mode of the
  sub-command and the host) to the ordered list of its observable effects and its
  outcome. Every \<open>await\<close> of the source is sequential, so a run is a sequence.
  Line numbers refer to \<open>src/init.ts\<close>.
\<close>

subsection \<open>Enumerations and the package manager registry (lines 21-66)\<close>

datatype InitMode = ModeNone | Game | Place | Model | Plugin | Package

datatype PackageManager = NPM | Yarn | Yarn3 | PNPM

text \<open>The string value of an \<open>InitMode\<close> member; it names the template directory.\<close>

fun modeName :: "InitMode \<Rightarrow> string" where
  "modeName ModeNone = ''none''"
| "modeName Game = ''game''"
| "modeName Place = ''place''"
| "modeName Model = ''model''"
| "modeName Plugin = ''plugin''"
| "modeName Package = ''package''"

record PackageManagerCommands =
  cmd_init :: string
  cmd_devInstall :: string
  cmd_build :: string

fun packageManagerCommands :: "PackageManager \<Rightarrow> PackageManagerCommands" where
  "packageManagerCommands NPM =
     \<lparr>cmd_init = ''npm init -y'', cmd_devInstall = ''npm install --silent -D'',
      cmd_build = ''npm run build''\<rparr>"
| "packageManagerCommands Yarn =
     \<lparr>cmd_init = ''yarn init -y'', cmd_devInstall = ''yarn add --silent -D'',
      cmd_build = ''yarn run build''\<rparr>"
| "packageManagerCommands Yarn3 =
     \<lparr>cmd_init = ''yarn init -y'', cmd_devInstall = ''yarn add --silent -D'',
      cmd_build = ''yarn run build''\<rparr>"
| "packageManagerCommands PNPM =
     \<lparr>cmd_init = ''pnpm init'', cmd_devInstall = ''pnpm install --silent -D'',
      cmd_build = ''pnpm run build''\<rparr>"

definition COMPILER_VERSION :: string where
  "COMPILER_VERSION = ''2.1.0''"

definition RBXTS_SCOPE :: string where
  "RBXTS_SCOPE = ''@rbxts''"

subsection \<open>Flags (lines 12-19)\<close>

text \<open>
  \<open>InitOptions\<close>: every flag is optional, and an absent flag is \<open>undefined\<close>
  (\<open>None\<close>). A boolean flag that is present is \<open>true\<close> or \<open>false\<close>.
\<close>

record InitOptions =
  yes :: "bool option"
  git :: "bool option"
  eslint :: "bool option"
  prettier :: "bool option"
  vscode :: "bool option"
  packageManager :: "PackageManager option"

text \<open>
  \<open>a ?? b\<close> with a definite right operand, and \<open>a && b\<close> with an optional boolean on
  the left: \<open>undefined && b\<close> is \<open>undefined\<close>, \<open>false && b\<close> is \<open>false\<close>,
  \<open>true && b\<close> is \<open>b\<close>.
\<close>

definition nullish :: "'a option \<Rightarrow> 'a \<Rightarrow> 'a" where
  "nullish a b = (case a of Some x \<Rightarrow> x | None \<Rightarrow> b)"

definition and_also :: "bool option \<Rightarrow> bool \<Rightarrow> bool option" where
  "and_also a b = (case a of None \<Rightarrow> None | Some x \<Rightarrow> Some (if x then b else False))"

subsection \<open>Structured values (JSON and YAML documents)\<close>

text \<open>
  An object is an association list in insertion order; assigning a property
  replaces the value of an existing key in place and appends a new key
  (\<open>AList.update\<close>). A number carries the text JavaScript prints for it.
\<close>

datatype json =
    JNull
  | JBool bool
  | JNum string
  | JStr string
  | JArr "json list"
  | JObj "(string \<times> json) list"

type_synonym obj = "(string \<times> json) list"

text \<open>
  String coercion, as \<open>"..." + v\<close> performs it. An array is joined with commas, its
  \<open>null\<close> elements printing as the empty string.
\<close>

fun js_string :: "json \<Rightarrow> string" and js_join :: "json list \<Rightarrow> string" where
  "js_string JNull = ''null''"
| "js_string (JBool b) = (if b then ''true'' else ''false'')"
| "js_string (JNum n) = n"
| "js_string (JStr s) = s"
| "js_string (JArr xs) = js_join xs"
| "js_string (JObj al) = ''[object Object]''"
| "js_join [] = []"
| "js_join (x # xs) =
     (if x = JNull then [] else js_string x) @ (if xs = [] then [] else '','' @ js_join xs)"

text \<open>Coercion of a property that may be missing (\<open>undefined\<close>).\<close>

definition js_string_prop :: "json option \<Rightarrow> string" where
  "js_string_prop v = (case v of None \<Rightarrow> ''undefined'' | Some x \<Rightarrow> js_string x)"

text \<open>\<open>Array.prototype.join\<close> on strings.\<close>

fun join :: "string \<Rightarrow> string list \<Rightarrow> string" where
  "join sep [] = []"
| "join sep [x] = x"
| "join sep (x # y # ys) = x @ sep @ join sep (y # ys)"

text \<open>\<open>Object.assign(target, source)\<close>: the properties of the source, in order.\<close>

fun assign :: "obj \<Rightarrow> obj \<Rightarrow> obj" where
  "assign target [] = target"
| "assign target ((k, v) # rest) = assign (AList.update k v target) rest"

text \<open>Reading a property of a value: \<open>undefined\<close> unless the value is an object that has it.\<close>

fun field :: "string \<Rightarrow> json \<Rightarrow> json option" where
  "field k (JObj al) = map_of al k"
| "field k v = None"

subsection \<open>The host\<close>

text \<open>
  A settled promise of \<open>Promise.allSettled\<close>; \<open>lookpath\<close> fulfils with the path of
  the tool, or with \<open>undefined\<close> when the tool is not on the search path.
\<close>

datatype 'a settled = Fulfilled 'a | Rejected

text \<open>
  What is at a path of the working directory. \<open>fs.pathExists\<close>, \<open>fs.stat\<close> and
  \<open>fs.readdir\<close> follow symbolic links, so a link is modelled with what it resolves
  to (\<open>None\<close> when it dangles). Besides a regular file and a directory with
  its entries, a path may hold a directory whose entries the process is not
  allowed to list (\<open>Unreadable\<close>) or a file that is neither regular nor a
  directory (\<open>Special\<close>: a FIFO, a socket, a device).
\<close>

datatype node = File | Directory "string list" | Unreadable "string list" | Special

datatype entry = Plain node | Symlink "node option"

type_synonym workdir = "string \<Rightarrow> entry option"

text \<open>The error object \<open>exec\<close> hands to its callback, with its fields as they print.\<close>

record ExecException =
  exc_cmd :: string
  exc_code :: string
  exc_message :: string

text \<open>
  The user at the terminal: for each question, either a submitted answer or a
  cancellation. For a \<open>select\<close> question the answer is the position of the
  highlighted choice. A reply is consulted only if its question is asked.
\<close>

datatype 'a reply = Cancelled | Submitted 'a

record user =
  reply_template :: "nat reply"
  reply_git :: "bool reply"
  reply_eslint :: "bool reply"
  reply_prettier :: "bool reply"
  reply_vscode :: "bool reply"
  reply_packageManager :: "nat reply"

text \<open>How a run ends when it does not complete.\<close>

datatype failure =
    ProcessExit nat
  | ReaddirError string
  | StatError string
  | OverwriteError "string list"
  | CommandError ExecException
  | GitError ExecException

text \<open>
  The host of a run: the outcome of each \<open>lookpath\<close> probe, the user, the working
  directory before the run, the entries of each template directory, the outcome
  of each shell command (\<open>None\<close>: exit code zero), and the documents the run reads
  back: the manifest the package manager's init command produced, yarn's
  \<open>.yarnrc.yml\<close>, and the ESLint configuration template.
\<close>

record host =
  lookpath :: "string \<Rightarrow> string option settled"
  terminal :: user
  cwd_entries :: workdir
  templateFiles :: "InitMode \<Rightarrow> failure + string list"
  exec :: "string \<Rightarrow> ExecException option"
  manifest :: obj
  yarnrc :: obj
  eslintrc :: obj

subsection \<open>Effects and tasks\<close>

text \<open>
  The observable effects of a run, in the order they happen: a question put to
  the user, the label of a pipeline step, a shell command, and the mutations of
  the file system (\<open>fs.copy\<close>, \<open>fs.remove\<close>, \<open>fs.outputFile\<close>, \<open>fs.writeFile\<close>),
  which are taken to succeed. A written document is recorded as the value that
  is serialised.
\<close>

datatype effect =
    Ask string
  | Step string
  | Exec string
  | CopyFile string string
  | RemoveFile string
  | OutputFile string json
  | WriteFile string json

type_synonym 'a task = "effect list \<times> (failure + 'a)"

definition done_with :: "'a \<Rightarrow> 'a task" where
  "done_with x = ([], Inr x)"

definition perform :: "effect \<Rightarrow> unit task" where
  "perform e = ([e], Inr ())"

definition failed :: "failure \<Rightarrow> 'a task" where
  "failed e = ([], Inl e)"

text \<open>\<open>await m; f\<close>: the rest runs only if \<open>m\<close> did not fail, after its effects.\<close>

definition await :: "'a task \<Rightarrow> ('a \<Rightarrow> 'b task) \<Rightarrow> 'b task" where
  "await m f =
     (case m of
        (tr, Inl e) \<Rightarrow> (tr, Inl e)
      | (tr, Inr x) \<Rightarrow> (case f x of (tr', r) \<Rightarrow> (tr @ tr', r)))"

definition and_then :: "unit task \<Rightarrow> 'b task \<Rightarrow> 'b task" where
  "and_then m n = await m (\<lambda>_. n)"

definition when_enabled :: "bool \<Rightarrow> unit task \<Rightarrow> unit task" where
  "when_enabled b m = (if b then m else done_with ())"

text \<open>
  Modelled from the spec: \<open>benchmark\<close> of \<open>src/util/benchmark\<close>, which is not among
  the sources. Each step is "wrapped with a named timing/progress boundary": the
  label is reported, then the callback runs, and its failure is the step's.
\<close>

definition benchmark :: "string \<Rightarrow> unit task \<Rightarrow> unit task" where
  "benchmark name callback = and_then (perform (Step name)) callback"

text \<open>
  \<open>cmd\<close> (lines 68-81): the command runs; an error of \<open>exec\<close> is rethrown as an
  \<open>Error\<close> whose message carries the command, the exit code and the message of
  the exception. No caller uses the standard output it resolves with.
\<close>

definition cmd :: "host \<Rightarrow> string \<Rightarrow> unit task" where
  "cmd h cmdStr =
     (case exec h cmdStr of
        Some error \<Rightarrow> ([Exec cmdStr], Inl (CommandError error))
      | None \<Rightarrow> ([Exec cmdStr], Inr ()))"

subsection \<open>Tool probing (lines 94-109)\<close>

text \<open>\<open>v.status === "fulfilled" ? v.value !== undefined : true\<close>\<close>

definition available :: "string option settled \<Rightarrow> bool" where
  "available v = (case v of Fulfilled r \<Rightarrow> r \<noteq> None | Rejected \<Rightarrow> True)"

definition npmAvailable :: "host \<Rightarrow> bool" where
  "npmAvailable h = available (lookpath h ''npm'')"

definition pnpmAvailable :: "host \<Rightarrow> bool" where
  "pnpmAvailable h = available (lookpath h ''pnpm'')"

definition yarnAvailable :: "host \<Rightarrow> bool" where
  "yarnAvailable h = available (lookpath h ''yarn'')"

definition gitAvailable :: "host \<Rightarrow> bool" where
  "gitAvailable h = available (lookpath h ''git'')"

fun packageManagerExistance :: "host \<Rightarrow> PackageManager \<Rightarrow> bool" where
  "packageManagerExistance h NPM = npmAvailable h"
| "packageManagerExistance h PNPM = pnpmAvailable h"
| "packageManagerExistance h Yarn = yarnAvailable h"
| "packageManagerExistance h Yarn3 = yarnAvailable h"

text \<open>\<open>Object.values(packageManagerExistance).filter((exists) => exists).length\<close>\<close>

definition packageManagerCount :: "host \<Rightarrow> nat" where
  "packageManagerCount h =
     length (filter (\<lambda>exists. exists) (map (packageManagerExistance h) [NPM, PNPM, Yarn, Yarn3]))"

subsection \<open>Option resolution (lines 111-200)\<close>

text \<open>
  The prompt session asks its questions in order. A question whose \<open>type\<close> is
  falsy is skipped and leaves its answer \<open>undefined\<close>; a cancelled question exits
  the process with status 1 (\<open>onCancel\<close>). A \<open>select\<close> answers with the value of
  the highlighted choice, which is \<open>undefined\<close> if there is no such choice.
\<close>

definition confirm :: "bool \<Rightarrow> string \<Rightarrow> bool reply \<Rightarrow> bool option task" where
  "confirm asked name r =
     (if asked then
        (case r of
           Cancelled \<Rightarrow> ([Ask name], Inl (ProcessExit 1))
         | Submitted v \<Rightarrow> ([Ask name], Inr (Some v)))
      else ([], Inr None))"

definition select :: "bool \<Rightarrow> string \<Rightarrow> 'a list \<Rightarrow> nat reply \<Rightarrow> 'a option task" where
  "select asked name choices r =
     (if asked then
        (case r of
           Cancelled \<Rightarrow> ([Ask name], Inl (ProcessExit 1))
         | Submitted i \<Rightarrow>
             ([Ask name], Inr (if i < length choices then Some (choices ! i) else None)))
      else ([], Inr None))"

record Answers =
  ans_template :: "InitMode option"
  ans_git :: "bool option"
  ans_eslint :: "bool option"
  ans_prettier :: "bool option"
  ans_vscode :: "bool option"
  ans_packageManager :: "PackageManager option"

text \<open>The \<open>type\<close> of each question: whether it is asked.\<close>

definition type_template :: "InitMode \<Rightarrow> bool" where
  "type_template initMode = (initMode = ModeNone)"

definition type_git :: "InitOptions \<Rightarrow> host \<Rightarrow> bool" where
  "type_git argv h = (git argv = None \<and> yes argv = None \<and> gitAvailable h)"

definition type_eslint :: "InitOptions \<Rightarrow> bool" where
  "type_eslint argv = (eslint argv = None \<and> yes argv = None)"

definition type_prettier :: "InitOptions \<Rightarrow> bool" where
  "type_prettier argv = (prettier argv = None \<and> yes argv = None)"

definition type_vscode :: "InitOptions \<Rightarrow> bool" where
  "type_vscode argv = (vscode argv = None \<and> yes argv = None)"

definition type_packageManager :: "InitOptions \<Rightarrow> host \<Rightarrow> bool" where
  "type_packageManager argv h =
     (packageManager argv = None \<and> packageManagerCount h > 1 \<and> yes argv = None)"

text \<open>
  The choices of the package manager question: the members of the enumeration,
  in its order, that are available.
\<close>

definition packageManagerChoices :: "host \<Rightarrow> PackageManager list" where
  "packageManagerChoices h = filter (packageManagerExistance h) [NPM, Yarn, Yarn3, PNPM]"

definition prompts :: "InitOptions \<Rightarrow> InitMode \<Rightarrow> host \<Rightarrow> Answers task" where
  "prompts argv initMode h =
     await (select (type_template initMode) ''template''
              [Game, Model, Plugin, Package] (reply_template (terminal h))) (\<lambda>t.
     await (confirm (type_git argv h) ''git'' (reply_git (terminal h))) (\<lambda>g.
     await (confirm (type_eslint argv) ''eslint'' (reply_eslint (terminal h))) (\<lambda>e.
     await (confirm (type_prettier argv) ''prettier'' (reply_prettier (terminal h))) (\<lambda>p.
     await (confirm (type_vscode argv) ''vscode'' (reply_vscode (terminal h))) (\<lambda>v.
     await (select (type_packageManager argv h) ''packageManager''
              (packageManagerChoices h) (reply_packageManager (terminal h))) (\<lambda>m.
     done_with \<lparr>ans_template = t, ans_git = g, ans_eslint = e, ans_prettier = p,
                 ans_vscode = v, ans_packageManager = m\<rparr>))))))"

text \<open>
  The resolved configuration: the destructuring of the answers, each with its
  default for an answer that is \<open>undefined\<close>.
\<close>

record ResolvedConfiguration =
  cfg_template :: InitMode
  cfg_git :: bool
  cfg_eslint :: bool
  cfg_prettier :: bool
  cfg_vscode :: bool
  cfg_packageManager :: PackageManager

definition destructure :: "InitOptions \<Rightarrow> InitMode \<Rightarrow> host \<Rightarrow> Answers \<Rightarrow> ResolvedConfiguration" where
  "destructure argv initMode h a =
     \<lparr>cfg_template = nullish (ans_template a) initMode,
      cfg_git = nullish (ans_git a)
                  (nullish (git argv) (nullish (and_also (yes argv) (gitAvailable h)) False)),
      cfg_eslint = nullish (ans_eslint a) (nullish (eslint argv) (nullish (yes argv) False)),
      cfg_prettier = nullish (ans_prettier a) (nullish (prettier argv) (nullish (yes argv) False)),
      cfg_vscode = nullish (ans_vscode a) (nullish (vscode argv) (nullish (yes argv) False)),
      cfg_packageManager = nullish (ans_packageManager a) (nullish (packageManager argv) NPM)\<rparr>"

definition resolveOptions :: "InitOptions \<Rightarrow> InitMode \<Rightarrow> host \<Rightarrow> ResolvedConfiguration task" where
  "resolveOptions argv initMode h =
     await (prompts argv initMode h) (\<lambda>a. done_with (destructure argv initMode h a))"

subsection \<open>Paths (lines 202-233)\<close>

text \<open>
  Paths of the working directory are written relative to it: \<open>path.join(cwd, p)\<close>
  names what \<open>p\<close> names, and \<open>path.relative(cwd, _)\<close> gives \<open>p\<close> back. The names a
  template directory lists are pushed as they are and resolve against the working
  directory too.
\<close>

definition paths_packageJson :: string where "paths_packageJson = ''package.json''"
definition paths_packageLockJson :: string where "paths_packageLockJson = ''package-lock.json''"
definition paths_yarnncOld :: string where "paths_yarnncOld = ''.yarnrc''"
definition paths_yarnnc :: string where "paths_yarnnc = ''.yarnrc.yml''"
definition paths_tsconfig :: string where "paths_tsconfig = ''tsconfig.json''"
definition paths_gitignore :: string where "paths_gitignore = ''.gitignore''"
definition paths_gitattributes :: string where "paths_gitattributes = ''.gitattributes''"
definition paths_eslintrc :: string where "paths_eslintrc = ''.eslintrc.yml''"
definition paths_eslintrcIgnore :: string where "paths_eslintrcIgnore = ''.eslintignore''"
definition paths_prettierrc :: string where "paths_prettierrc = ''.prettierrc.yml''"
definition paths_prettierIgnore :: string where "paths_prettierIgnore = ''.prettierignore''"
definition paths_settings :: string where "paths_settings = ''.vscode/settings.json''"
definition paths_extensions :: string where "paths_extensions = ''.vscode/extensions.json''"

text \<open>\<open>Object.values(paths)\<close>, in the order of the literal.\<close>

definition paths_values :: "string list" where
  "paths_values =
     [paths_packageJson, paths_packageLockJson, paths_yarnncOld, paths_yarnnc, paths_tsconfig,
      paths_gitignore, paths_gitattributes, paths_eslintrc, paths_eslintrcIgnore,
      paths_prettierrc, paths_prettierIgnore, paths_settings, paths_extensions]"

text \<open>The configuration templates lie beside the compiled module, the project templates one level up.\<close>

definition configTemplate_gitignore :: string where
  "configTemplate_gitignore = ''__dirname/templates/.gitignore''"
definition configTemplate_gitattributes :: string where
  "configTemplate_gitattributes = ''__dirname/templates/.gitattributes''"
definition configTemplate_eslintrc :: string where
  "configTemplate_eslintrc = ''__dirname/templates/.eslintrc.yml''"
definition configTemplate_eslintrcIgnore :: string where
  "configTemplate_eslintrcIgnore = ''__dirname/templates/.eslintignore''"
definition configTemplate_prettierrc :: string where
  "configTemplate_prettierrc = ''__dirname/templates/.prettierrc.yml''"
definition configTemplate_prettierIgnore :: string where
  "configTemplate_prettierIgnore = ''__dirname/templates/.prettierignore''"

definition templateDir :: "InitMode \<Rightarrow> string" where
  "templateDir template = ''__dirname/../templates/'' @ modeName template"

definition cwd :: string where "cwd = ''.''"

text \<open>\<open>pathValues\<close>: the fixed paths, then every entry of the template directory.\<close>

definition pathValues :: "string list \<Rightarrow> string list" where
  "pathValues fileNames = paths_values @ fileNames"

subsection \<open>Conflict detection (lines 235-256)\<close>

text \<open>
  \<open>fs.pathExists\<close> is \<open>access(2)\<close>, \<open>fs.stat\<close> is \<open>stat(2)\<close> and \<open>fs.readdir\<close> opens the
  directory: all three resolve a symbolic link first. \<open>Stats\<close> tells the kind of
  what was reached; only \<open>lstat\<close>, which the source does not call, reports a link.
\<close>

datatype Stats = StatsFile | StatsDirectory | StatsSymbolicLink | StatsOther

fun follow :: "entry \<Rightarrow> node option" where
  "follow (Plain n) = Some n"
| "follow (Symlink target) = target"

definition reached :: "workdir \<Rightarrow> string \<Rightarrow> node option" where
  "reached wd p = (case wd p of None \<Rightarrow> None | Some e \<Rightarrow> follow e)"

definition pathExists :: "workdir \<Rightarrow> string \<Rightarrow> bool" where
  "pathExists wd p = (reached wd p \<noteq> None)"

definition stat :: "workdir \<Rightarrow> string \<Rightarrow> failure + Stats" where
  "stat wd p =
     (case reached wd p of
        None \<Rightarrow> Inl (StatError p)
      | Some File \<Rightarrow> Inr StatsFile
      | Some (Directory names) \<Rightarrow> Inr StatsDirectory
      | Some (Unreadable names) \<Rightarrow> Inr StatsDirectory
      | Some Special \<Rightarrow> Inr StatsOther)"

definition isFile :: "Stats \<Rightarrow> bool" where
  "isFile st = (st = StatsFile)"

definition isSymbolicLink :: "Stats \<Rightarrow> bool" where
  "isSymbolicLink st = (st = StatsSymbolicLink)"

text \<open>
  \<open>fs.readdir\<close> rejects on what is not a directory (\<open>ENOTDIR\<close>), on a directory
  that may not be listed (\<open>EACCES\<close>) and on a missing path (\<open>ENOENT\<close>).
\<close>

definition readdir :: "workdir \<Rightarrow> string \<Rightarrow> failure + string list" where
  "readdir wd p =
     (case reached wd p of
        Some (Directory names) \<Rightarrow> Inr names
      | Some (Unreadable names) \<Rightarrow> Inl (ReaddirError p)
      | Some Special \<Rightarrow> Inl (ReaddirError p)
      | Some File \<Rightarrow> Inl (ReaddirError p)
      | None \<Rightarrow> Inl (ReaddirError p))"

text \<open>
  The loop over \<open>pathValues\<close>, with \<open>existingPaths\<close> as its accumulator. The
  condition is evaluated left to right: the directory is read only for a path
  that is neither a file nor a link, and the read is not guarded, so its
  rejection is the run's.
\<close>

fun existingPaths :: "workdir \<Rightarrow> string list \<Rightarrow> string list \<Rightarrow> failure + string list" where
  "existingPaths wd [] found = Inr found"
| "existingPaths wd (filePath # rest) found =
     (if filePath \<noteq> [] \<and> pathExists wd filePath then
        (case stat wd filePath of
           Inl e \<Rightarrow> Inl e
         | Inr st \<Rightarrow>
             if isFile st \<or> isSymbolicLink st then existingPaths wd rest (found @ [filePath])
             else
               (case readdir wd filePath of
                  Inl e \<Rightarrow> Inl e
                | Inr names \<Rightarrow>
                    if length names > 0 then existingPaths wd rest (found @ [filePath])
                    else existingPaths wd rest found))
      else existingPaths wd rest found)"

text \<open>
  The pre-flight check: an error of the file system is the run's; a non-empty
  list is thrown as the error whose message lists each path on a line of its own.
\<close>

definition checkConflicts :: "workdir \<Rightarrow> string list \<Rightarrow> unit task" where
  "checkConflicts wd candidates =
     (case existingPaths wd candidates [] of
        Inl e \<Rightarrow> failed e
      | Inr found \<Rightarrow> if length found > 0 then failed (OverwriteError found) else done_with ())"

subsection \<open>The scaffold pipeline (lines 258-430)\<close>

text \<open>
  The manifest as it is written back (lines 262-274): the rewrite of what
  \<open>fs.readJson\<close> returned.
\<close>

definition buildScripts :: obj where
  "buildScripts = [(''build'', JStr ''rbxtsc''), (''watch'', JStr ''rbxtsc -w'')]"

text \<open>
  \<open>pkgJson.scripts\<close> is the object assigned first; in package mode the pre-publish
  script is added to that same object.
\<close>

definition rewriteManifest :: "InitMode \<Rightarrow> PackageManagerCommands \<Rightarrow> obj \<Rightarrow> obj" where
  "rewriteManifest template selectedPackageManager pkgJson =
     (let scripts = buildScripts;
          pkgJson = AList.update ''scripts'' (JObj scripts) pkgJson
      in if template = Package then
           (let pkgJson = AList.update ''name''
                            (JStr (RBXTS_SCOPE @ ''/'' @ js_string_prop (map_of pkgJson ''name'')))
                            pkgJson;
                pkgJson = AList.update ''main'' (JStr ''out/init.lua'') pkgJson;
                pkgJson = AList.update ''types'' (JStr ''out/index.d.ts'') pkgJson;
                pkgJson = AList.update ''files''
                            (JArr [JStr ''out'', JStr ''!**/*.tsbuildinfo'']) pkgJson;
                pkgJson = AList.update ''publishConfig''
                            (JObj [(''access'', JStr ''public'')]) pkgJson;
                scripts = AList.update ''prepublishOnly''
                            (JStr (cmd_build selectedPackageManager)) scripts
            in AList.update ''scripts'' (JObj scripts) pkgJson)
         else pkgJson)"

definition initPackageJson :: "host \<Rightarrow> ResolvedConfiguration \<Rightarrow> unit task" where
  "initPackageJson h c =
     benchmark ''Initializing package.json..''
       (and_then (cmd h (cmd_init (packageManagerCommands (cfg_packageManager c))))
          (perform (OutputFile paths_packageJson
             (JObj (rewriteManifest (cfg_template c)
                      (packageManagerCommands (cfg_packageManager c)) (manifest h))))))"

text \<open>
  The \<open>try\<close>/\<open>catch\<close> around \<open>git init\<close>: the error of the command is rethrown
  with the hint that Git may be missing.
\<close>

definition gitHint :: "unit task \<Rightarrow> unit task" where
  "gitHint m =
     (case m of
        (tr, Inl (CommandError error)) \<Rightarrow> (tr, Inl (GitError error))
      | (tr, r) \<Rightarrow> (tr, r))"

definition initGit :: "host \<Rightarrow> unit task" where
  "initGit h =
     benchmark ''Initializing Git..''
       (and_then (gitHint (cmd h ''git init''))
          (and_then (perform (CopyFile configTemplate_gitignore paths_gitignore))
             (perform (CopyFile configTemplate_gitattributes paths_gitattributes))))"

definition devDependencies :: "ResolvedConfiguration \<Rightarrow> string list" where
  "devDependencies c =
     [''@rbxts/types'', ''@rbxts/compiler-types@compiler-'' @ COMPILER_VERSION, ''typescript'']
     @ (if cfg_prettier c then [''prettier''] else [])
     @ (if cfg_eslint c then
          [''eslint'', ''@typescript-eslint/parser'', ''eslint-plugin-roblox-ts'']
          @ (if cfg_prettier c then [''eslint-plugin-prettier''] else [])
        else [])"

definition installDependencies :: "host \<Rightarrow> ResolvedConfiguration \<Rightarrow> unit task" where
  "installDependencies h c =
     benchmark ''Installing dependencies..''
       (cmd h (cmd_devInstall (packageManagerCommands (cfg_packageManager c)) @ '' ''
               @ join '' '' (devDependencies c)))"

definition setupYarn3 :: "host \<Rightarrow> unit task" where
  "setupYarn3 h =
     benchmark ''Setting up yarn v3..''
       (and_then (cmd h ''yarn set verion latest'')
          (and_then (perform (RemoveFile paths_yarnncOld))
             (let yamlData = yarnrc h
              in if map_of yamlData ''nodeLinker'' = None
                    \<or> map_of yamlData ''nodeLinker'' \<noteq> Some (JStr ''node-modules'')
                 then perform (WriteFile paths_yarnnc
                        (JObj (AList.update ''nodeLinker'' (JStr ''node-modules'') yamlData)))
                 else done_with ())))"

definition configureEslint :: "host \<Rightarrow> ResolvedConfiguration \<Rightarrow> unit task" where
  "configureEslint h c =
     benchmark ''Configuring ESLint..''
       (and_then (perform (CopyFile configTemplate_eslintrc paths_eslintrc))
          (and_then (perform (CopyFile configTemplate_eslintrcIgnore paths_eslintrcIgnore))
             (when_enabled (cfg_prettier c)
                (perform (WriteFile paths_eslintrc
                   (JObj (AList.update ''extends'' (JStr ''prettier'') (eslintrc h))))))))"

definition configurePrettier :: "unit task" where
  "configurePrettier =
     benchmark ''Configuring prettier..''
       (and_then (perform (CopyFile configTemplate_prettierrc paths_prettierrc))
          (perform (CopyFile configTemplate_prettierIgnore paths_prettierIgnore)))"

text \<open>
  The two documents of the editor step (lines 370-413), built before anything is
  written.
\<close>

definition formatterBlock :: "string \<Rightarrow> json" where
  "formatterBlock extension =
     JObj [(''editor.defaultFormatter'', JStr extension), (''editor.formatOnSave'', JBool True)]"

definition vscodeSettings :: "ResolvedConfiguration \<Rightarrow> obj" where
  "vscodeSettings c =
     (let settings = [(''typescript.enablePromptUseWorkspaceTsdk'', JBool True)];
          settings =
            (if cfg_eslint c then
               assign settings
                 [(''[typescript]'', formatterBlock ''dbaeumer.vscode-eslint''),
                  (''[typescriptreact]'', formatterBlock ''dbaeumer.vscode-eslint''),
                  (''eslint.run'', JStr ''onType''),
                  (''eslint.format.enable'', JBool True)]
             else settings)
      in if cfg_prettier c then
           (if \<not> cfg_eslint c then
              assign settings
                [(''[typescript]'', formatterBlock ''esbenp.prettier-vscode''),
                 (''[typescriptreact]'', formatterBlock ''esbenp.prettier-vscode'')]
            else settings)
         else settings)"

definition vscodeRecommendations :: "ResolvedConfiguration \<Rightarrow> string list" where
  "vscodeRecommendations c =
     [''roblox-ts.vscode-roblox-ts'']
     @ (if cfg_eslint c then [''dbaeumer.vscode-eslint''] else [])
     @ (if cfg_prettier c then [''esbenp.prettier-vscode''] else [])
     @ (if cfg_packageManager c = Yarn3 then [''arcanis.vscode-zipfs''] else [])"

definition configureVscode :: "host \<Rightarrow> ResolvedConfiguration \<Rightarrow> unit task" where
  "configureVscode h c =
     benchmark ''Configuring vscode..''
       (and_then (when_enabled (cfg_packageManager c = Yarn3) (cmd h ''yarn dlx @yarnpkg/sdks vscode''))
          (and_then
             (perform (OutputFile paths_extensions
                (JObj [(''recommendations'', JArr (map JStr (vscodeRecommendations c)))])))
             (perform (OutputFile paths_settings (JObj (vscodeSettings c))))))"

definition copyTemplate :: "ResolvedConfiguration \<Rightarrow> unit task" where
  "copyTemplate c =
     benchmark ''Copying template files..'' (perform (CopyFile (templateDir (cfg_template c)) cwd))"

definition compile :: "host \<Rightarrow> unit task" where
  "compile h = benchmark ''Compiling..'' (cmd h ''npm run build'')"

text \<open>
  The steps in their order; a failed step ends the run. The last step runs the
  command \<open>npm run build\<close> (line 430).
\<close>

definition pipeline :: "host \<Rightarrow> ResolvedConfiguration \<Rightarrow> unit task" where
  "pipeline h c =
     and_then (initPackageJson h c)
    (and_then (when_enabled (cfg_git c) (initGit h))
    (and_then (installDependencies h c)
    (and_then (when_enabled (cfg_packageManager c = Yarn3) (setupYarn3 h))
    (and_then (when_enabled (cfg_eslint c) (configureEslint h c))
    (and_then (when_enabled (cfg_prettier c) configurePrettier)
    (and_then (when_enabled (cfg_vscode c) (configureVscode h c))
    (and_then (copyTemplate c)
              (compile h))))))))"

subsection \<open>The command (lines 88-431)\<close>

definition readTemplateDir :: "host \<Rightarrow> InitMode \<Rightarrow> string list task" where
  "readTemplateDir h template =
     (case templateFiles h template of Inl e \<Rightarrow> failed e | Inr fileNames \<Rightarrow> done_with fileNames)"

definition init :: "InitOptions \<Rightarrow> InitMode \<Rightarrow> host \<Rightarrow> unit task" where
  "init argv initMode h =
     await (resolveOptions argv initMode h) (\<lambda>c.
     await (readTemplateDir h (cfg_template c)) (\<lambda>fileNames.
     and_then (checkConflicts (cwd_entries h) (pathValues fileNames))
              (pipeline h c)))"

subsection \<open>Notions used in the statements\<close>

text \<open>The questions of a session that is not cancelled, in the order they are asked.\<close>

definition questions :: "InitOptions \<Rightarrow> InitMode \<Rightarrow> host \<Rightarrow> effect list" where
  "questions argv initMode h =
     (if type_template initMode then [Ask ''template''] else [])
     @ (if type_git argv h then [Ask ''git''] else [])
     @ (if type_eslint argv then [Ask ''eslint''] else [])
     @ (if type_prettier argv then [Ask ''prettier''] else [])
     @ (if type_vscode argv then [Ask ''vscode''] else [])
     @ (if type_packageManager argv h then [Ask ''packageManager''] else [])"

text \<open>
  A conflicting path in the words of the specification (section 4.3): "if it
  exists as a regular file or symbolic link, it is a conflict; if it exists as a
  directory, it is a conflict only when non-empty". The entry itself is judged,
  so every symbolic link conflicts, whatever it points to.
\<close>

definition conflicting :: "workdir \<Rightarrow> string \<Rightarrow> bool" where
  "conflicting wd p =
     (case wd p of
        None \<Rightarrow> False
      | Some (Symlink target) \<Rightarrow> True
      | Some (Plain File) \<Rightarrow> True
      | Some (Plain (Directory names)) \<Rightarrow> names \<noteq> []
      | Some (Plain (Unreadable names)) \<Rightarrow> names \<noteq> []
      | Some (Plain Special) \<Rightarrow> False)"

text \<open>
  What the loop of the source pushes, told from the working directory: a path
  that reaches, through links, a regular file or a directory with an entry.
\<close>

definition detected :: "workdir \<Rightarrow> string \<Rightarrow> bool" where
  "detected wd p =
     (p \<noteq> [] \<and>
      (case reached wd p of
         None \<Rightarrow> False
       | Some File \<Rightarrow> True
       | Some (Directory names) \<Rightarrow> names \<noteq> []
       | Some (Unreadable names) \<Rightarrow> False
       | Some Special \<Rightarrow> False))"

text \<open>A path on which the loop reads a directory that cannot be read.\<close>

definition unlistable :: "workdir \<Rightarrow> string \<Rightarrow> bool" where
  "unlistable wd p =
     (p \<noteq> [] \<and>
      (case reached wd p of
         None \<Rightarrow> False
       | Some File \<Rightarrow> False
       | Some (Directory names) \<Rightarrow> False
       | Some (Unreadable names) \<Rightarrow> True
       | Some Special \<Rightarrow> True))"

text \<open>The default formatter a settings document names for a language block.\<close>

definition defaultFormatter :: "string \<Rightarrow> obj \<Rightarrow> json option" where
  "defaultFormatter language settings =
     (case map_of settings language of
        None \<Rightarrow> None
      | Some block \<Rightarrow> field ''editor.defaultFormatter'' block)"

text \<open>The script of a given name in a manifest.\<close>

definition script :: "string \<Rightarrow> obj \<Rightarrow> json option" where
  "script name pkgJson =
     (case map_of pkgJson ''scripts'' of None \<Rightarrow> None | Some scripts \<Rightarrow> field name scripts)"

subsection \<open>Example hosts\<close>

text \<open>
  A host on which the listed tools are installed: a probe finds exactly those, and
  a command succeeds exactly if its program is one of them. The user accepts
  every question, the templates list two entries, and the package manager's
  init command leaves a manifest with a name and a version.
\<close>

definition no_flags :: InitOptions where
  "no_flags = \<lparr>yes = None, git = None, eslint = None, prettier = None, vscode = None,
              packageManager = None\<rparr>"

definition accepting_user :: user where
  "accepting_user =
     \<lparr>reply_template = Submitted 0, reply_git = Submitted True, reply_eslint = Submitted True,
      reply_prettier = Submitted True, reply_vscode = Submitted True,
      reply_packageManager = Submitted 0\<rparr>"

definition program :: "string \<Rightarrow> string" where
  "program cmdStr = takeWhile (\<lambda>ch. ch \<noteq> CHR '' '') cmdStr"

definition example_host :: "string list \<Rightarrow> workdir \<Rightarrow> host" where
  "example_host installed wd =
     \<lparr>lookpath = (\<lambda>tool. Fulfilled (if tool \<in> set installed then Some (''/usr/bin/'' @ tool) else None)),
      terminal = accepting_user,
      cwd_entries = wd,
      templateFiles = (\<lambda>template.
         if template = ModeNone \<or> template = Place then Inl (ReaddirError (templateDir template))
         else Inr [''default.project.json'', ''src'']),
      exec = (\<lambda>cmdStr.
         if program cmdStr \<in> set installed then None
         else Some \<lparr>exc_cmd = cmdStr, exc_code = ''127'', exc_message = ''Command failed: '' @ cmdStr\<rparr>),
      manifest = [(''name'', JStr ''demo''), (''version'', JStr ''1.0.0'')],
      yarnrc = [],
      eslintrc = [(''parser'', JStr ''@typescript-eslint/parser'')]\<rparr>"

definition empty_dir :: workdir where
  "empty_dir = (\<lambda>p. None)"

text \<open>
  A working directory with a regular file, a directory with an entry, a link to
  a file, and an empty directory at candidate paths.
\<close>

definition cluttered_dir :: workdir where
  "cluttered_dir =
     empty_dir(''src'' := Some (Plain (Directory [''main.ts''])),
               ''package.json'' := Some (Plain File),
               ''.eslintignore'' := Some (Symlink (Some File)),
               ''tsconfig.json'' := Some (Plain (Directory [])))"

text \<open>
  A working directory with a regular file at \<open>package.json\<close>, a link to an empty
  directory at \<open>.gitignore\<close> and a dangling link at \<open>.gitattributes\<close>; one whose
  only entry is the link at \<open>.gitignore\<close>; and one with a regular file at
  \<open>package.json\<close> and a FIFO at \<open>tsconfig.json\<close>.
\<close>

definition linked_dir :: workdir where
  "linked_dir =
     empty_dir(''package.json'' := Some (Plain File),
               ''.gitignore'' := Some (Symlink (Some (Directory []))),
               ''.gitattributes'' := Some (Symlink None))"

definition only_link_dir :: workdir where
  "only_link_dir = empty_dir(''.gitignore'' := Some (Symlink (Some (Directory []))))"

definition fifo_dir :: workdir where
  "fifo_dir =
     empty_dir(''package.json'' := Some (Plain File),
               ''tsconfig.json'' := Some (Plain Special))"

section \<open>Properties\<close>

subsection \<open>Unfolding a run on a concrete host\<close>

lemmas resolve_defs =
  resolveOptions_def prompts_def await_def confirm_def select_def done_with_def
  destructure_def nullish_def and_also_def type_template_def type_git_def type_eslint_def
  type_prettier_def type_vscode_def type_packageManager_def packageManagerCount_def
  npmAvailable_def pnpmAvailable_def yarnAvailable_def gitAvailable_def available_def
  packageManagerChoices_def

lemmas example_defs = example_host_def no_flags_def accepting_user_def program_def empty_dir_def

lemmas conflict_defs =
  checkConflicts_def pathValues_def paths_values_def pathExists_def reached_def stat_def
  isFile_def isSymbolicLink_def readdir_def failed_def

lemmas paths_defs =
  paths_packageJson_def paths_packageLockJson_def paths_yarnncOld_def paths_yarnnc_def
  paths_tsconfig_def paths_gitignore_def paths_gitattributes_def paths_eslintrc_def
  paths_eslintrcIgnore_def paths_prettierrc_def paths_prettierIgnore_def paths_settings_def
  paths_extensions_def configTemplate_gitignore_def configTemplate_gitattributes_def
  configTemplate_eslintrc_def configTemplate_eslintrcIgnore_def configTemplate_prettierrc_def
  configTemplate_prettierIgnore_def templateDir_def cwd_def

lemmas pipeline_defs =
  pipeline_def initPackageJson_def initGit_def installDependencies_def setupYarn3_def
  configureEslint_def configurePrettier_def configureVscode_def copyTemplate_def compile_def
  benchmark_def and_then_def when_enabled_def perform_def cmd_def rewriteManifest_def
  buildScripts_def devDependencies_def vscodeSettings_def vscodeRecommendations_def
  formatterBlock_def COMPILER_VERSION_def RBXTS_SCOPE_def js_string_prop_def gitHint_def
  await_def done_with_def

lemmas init_defs = init_def readTemplateDir_def

subsection \<open>Tasks and the prompt session\<close>

lemma await_Inr:
  "await m f = (tr, Inr y) \<longleftrightarrow> (\<exists>tr1 x tr2. m = (tr1, Inr x) \<and> f x = (tr2, Inr y) \<and> tr = tr1 @ tr2)"
  by (cases m; cases "snd m") (auto simp: await_def split: prod.splits sum.splits)

lemma await_effect:
  "e \<in> set (fst (await m f)) \<Longrightarrow> e \<in> set (fst m) \<or> (\<exists>x. e \<in> set (fst (f x)))"
proof (cases m)
  case (Pair tr r)
  assume e: "e \<in> set (fst (await m f))"
  show ?thesis
  proof (cases r)
    case (Inl err)
    with Pair e show ?thesis by (simp add: await_def)
  next
    case (Inr x)
    with Pair e have "e \<in> set tr \<or> e \<in> set (fst (f x))"
      by (cases "f x") (auto simp: await_def)
    with Pair show ?thesis by auto
  qed
qed

lemma await_failure:
  "snd (await m f) = Inl e \<Longrightarrow> snd m = Inl e \<or> (\<exists>x. snd (f x) = Inl e)"
proof (cases m)
  case (Pair tr r)
  assume e: "snd (await m f) = Inl e"
  show ?thesis
  proof (cases r)
    case (Inl err)
    with Pair e show ?thesis by (simp add: await_def)
  next
    case (Inr x)
    with Pair e have "snd (f x) = Inl e"
      by (cases "f x") (auto simp: await_def)
    then show ?thesis by auto
  qed
qed

lemma confirm_Inr:
  "confirm asked name r = (tr, Inr v) \<longleftrightarrow>
     tr = (if asked then [Ask name] else []) \<and> (asked \<longrightarrow> r \<noteq> Cancelled) \<and>
     v = (if asked then (case r of Submitted b \<Rightarrow> Some b | Cancelled \<Rightarrow> None) else None)"
  by (auto simp: confirm_def split: reply.splits)

lemma select_Inr:
  "select asked name choices r = (tr, Inr v) \<longleftrightarrow>
     tr = (if asked then [Ask name] else []) \<and> (asked \<longrightarrow> r \<noteq> Cancelled) \<and>
     v = (if asked then
            (case r of Submitted i \<Rightarrow> if i < length choices then Some (choices ! i) else None
             | Cancelled \<Rightarrow> None)
          else None)"
  by (auto simp: select_def split: reply.splits)

lemma fst_confirm: "fst (confirm asked name r) = (if asked then [Ask name] else [])"
  by (simp add: confirm_def split: reply.splits)

lemma fst_select: "fst (select asked name choices r) = (if asked then [Ask name] else [])"
  by (simp add: select_def split: reply.splits)

lemma confirm_Inl: "snd (confirm asked name r) = Inl e \<Longrightarrow> e = ProcessExit 1"
  by (auto simp: confirm_def split: reply.splits if_splits)

lemma select_Inl: "snd (select asked name choices r) = Inl e \<Longrightarrow> e = ProcessExit 1"
  by (auto simp: select_def split: reply.splits if_splits)

lemma prompts_asked:
  "e \<in> set (fst (prompts argv initMode h)) \<Longrightarrow> e \<in> set (questions argv initMode h)"
  unfolding prompts_def questions_def
  by (auto dest!: await_effect simp: fst_confirm fst_select done_with_def split: if_splits)

lemma prompts_Inl: "snd (prompts argv initMode h) = Inl e \<Longrightarrow> e = ProcessExit 1"
  unfolding prompts_def
  by (auto dest!: await_failure dest: confirm_Inl select_Inl simp: done_with_def)

lemma prompts_Inr:
  "prompts argv initMode h = (tr, Inr a) \<longleftrightarrow>
     tr = questions argv initMode h \<and>
     (type_template initMode \<longrightarrow> reply_template (terminal h) \<noteq> Cancelled) \<and>
     (type_git argv h \<longrightarrow> reply_git (terminal h) \<noteq> Cancelled) \<and>
     (type_eslint argv \<longrightarrow> reply_eslint (terminal h) \<noteq> Cancelled) \<and>
     (type_prettier argv \<longrightarrow> reply_prettier (terminal h) \<noteq> Cancelled) \<and>
     (type_vscode argv \<longrightarrow> reply_vscode (terminal h) \<noteq> Cancelled) \<and>
     (type_packageManager argv h \<longrightarrow> reply_packageManager (terminal h) \<noteq> Cancelled) \<and>
     a = \<lparr>ans_template =
            (if type_template initMode then
               (case reply_template (terminal h) of
                  Submitted i \<Rightarrow> if i < length [Game, Model, Plugin, Package]
                                   then Some ([Game, Model, Plugin, Package] ! i) else None
                | Cancelled \<Rightarrow> None)
             else None),
          ans_git = (if type_git argv h then
                       (case reply_git (terminal h) of Submitted b \<Rightarrow> Some b | Cancelled \<Rightarrow> None)
                     else None),
          ans_eslint = (if type_eslint argv then
                       (case reply_eslint (terminal h) of Submitted b \<Rightarrow> Some b | Cancelled \<Rightarrow> None)
                     else None),
          ans_prettier = (if type_prettier argv then
                       (case reply_prettier (terminal h) of Submitted b \<Rightarrow> Some b | Cancelled \<Rightarrow> None)
                     else None),
          ans_vscode = (if type_vscode argv then
                       (case reply_vscode (terminal h) of Submitted b \<Rightarrow> Some b | Cancelled \<Rightarrow> None)
                     else None),
          ans_packageManager =
            (if type_packageManager argv h then
               (case reply_packageManager (terminal h) of
                  Submitted i \<Rightarrow> if i < length (packageManagerChoices h)
                                   then Some (packageManagerChoices h ! i) else None
                | Cancelled \<Rightarrow> None)
             else None)\<rparr>"
  unfolding prompts_def questions_def await_Inr confirm_Inr select_Inr done_with_def
  by (simp del: length_Cons) blast


lemma resolveOptions_Inr:
  "resolveOptions argv initMode h = (tr, Inr c) \<longleftrightarrow>
     (\<exists>a. prompts argv initMode h = (tr, Inr a) \<and> c = destructure argv initMode h a)"
  by (auto simp: resolveOptions_def await_Inr done_with_def)

lemma resolveOptions_asked:
  "e \<in> set (fst (resolveOptions argv initMode h)) \<Longrightarrow> e \<in> set (questions argv initMode h)"
  unfolding resolveOptions_def
  by (auto dest!: await_effect dest: prompts_asked simp: done_with_def)

lemma resolveOptions_Inl: "snd (resolveOptions argv initMode h) = Inl e \<Longrightarrow> e = ProcessExit 1"
  unfolding resolveOptions_def
  by (auto dest!: await_failure dest: prompts_Inl simp: done_with_def)

lemma questions_Ask: "e \<in> set (questions argv initMode h) \<Longrightarrow> \<exists>name. e = Ask name"
  by (auto simp: questions_def split: if_splits)

subsection \<open>Option resolution\<close>

text \<open>The four toggles of a resolution that is not cancelled.\<close>

lemma toggles_resolved:
  assumes "resolveOptions argv initMode h = (tr, Inr c)"
  shows "(case git argv of
            Some b \<Rightarrow> cfg_git c = b \<and> Ask ''git'' \<notin> set tr
          | None \<Rightarrow>
              if Ask ''git'' \<in> set tr then reply_git (terminal h) = Submitted (cfg_git c)
              else cfg_git c = nullish (and_also (yes argv) (gitAvailable h)) False)
       \<and> (case eslint argv of
            Some b \<Rightarrow> cfg_eslint c = b \<and> Ask ''eslint'' \<notin> set tr
          | None \<Rightarrow>
              if Ask ''eslint'' \<in> set tr then reply_eslint (terminal h) = Submitted (cfg_eslint c)
              else cfg_eslint c = nullish (yes argv) False)
       \<and> (case prettier argv of
            Some b \<Rightarrow> cfg_prettier c = b \<and> Ask ''prettier'' \<notin> set tr
          | None \<Rightarrow>
              if Ask ''prettier'' \<in> set tr then reply_prettier (terminal h) = Submitted (cfg_prettier c)
              else cfg_prettier c = nullish (yes argv) False)
       \<and> (case vscode argv of
            Some b \<Rightarrow> cfg_vscode c = b \<and> Ask ''vscode'' \<notin> set tr
          | None \<Rightarrow>
              if Ask ''vscode'' \<in> set tr then reply_vscode (terminal h) = Submitted (cfg_vscode c)
              else cfg_vscode c = nullish (yes argv) False)"
proof -
  from assms obtain a where p: "prompts argv initMode h = (tr, Inr a)"
    and c: "c = destructure argv initMode h a"
    by (auto simp: resolveOptions_Inr)
  note facts = p [unfolded prompts_Inr]
  have tr: "tr = questions argv initMode h" using facts by simp
  have g: "ans_git a = (if type_git argv h then
                       (case reply_git (terminal h) of Submitted b \<Rightarrow> Some b | Cancelled \<Rightarrow> None)
                     else None)" using facts by simp
  have g': "type_git argv h \<longrightarrow> reply_git (terminal h) \<noteq> Cancelled" using facts by simp
  have e: "ans_eslint a = (if type_eslint argv then
                       (case reply_eslint (terminal h) of Submitted b \<Rightarrow> Some b | Cancelled \<Rightarrow> None)
                     else None)" using facts by simp
  have e': "type_eslint argv \<longrightarrow> reply_eslint (terminal h) \<noteq> Cancelled" using facts by simp
  have pr: "ans_prettier a = (if type_prettier argv then
                       (case reply_prettier (terminal h) of Submitted b \<Rightarrow> Some b | Cancelled \<Rightarrow> None)
                     else None)" using facts by simp
  have pr': "type_prettier argv \<longrightarrow> reply_prettier (terminal h) \<noteq> Cancelled" using facts by simp
  have v: "ans_vscode a = (if type_vscode argv then
                       (case reply_vscode (terminal h) of Submitted b \<Rightarrow> Some b | Cancelled \<Rightarrow> None)
                     else None)" using facts by simp
  have v': "type_vscode argv \<longrightarrow> reply_vscode (terminal h) \<noteq> Cancelled" using facts by simp
  have 1: "(case git argv of
            Some b \<Rightarrow> cfg_git c = b \<and> Ask ''git'' \<notin> set tr
          | None \<Rightarrow>
              if Ask ''git'' \<in> set tr then reply_git (terminal h) = Submitted (cfg_git c)
              else cfg_git c = nullish (and_also (yes argv) (gitAvailable h)) False)"
    using g g' by (cases "reply_git (terminal h)")
      (auto simp: c tr destructure_def questions_def type_git_def nullish_def split: option.splits)
  have 2: "(case eslint argv of
            Some b \<Rightarrow> cfg_eslint c = b \<and> Ask ''eslint'' \<notin> set tr
          | None \<Rightarrow>
              if Ask ''eslint'' \<in> set tr then reply_eslint (terminal h) = Submitted (cfg_eslint c)
              else cfg_eslint c = nullish (yes argv) False)"
    using e e' by (cases "reply_eslint (terminal h)")
      (auto simp: c tr destructure_def questions_def type_eslint_def nullish_def split: option.splits)
  have 3: "(case prettier argv of
            Some b \<Rightarrow> cfg_prettier c = b \<and> Ask ''prettier'' \<notin> set tr
          | None \<Rightarrow>
              if Ask ''prettier'' \<in> set tr then reply_prettier (terminal h) = Submitted (cfg_prettier c)
              else cfg_prettier c = nullish (yes argv) False)"
    using pr pr' by (cases "reply_prettier (terminal h)")
      (auto simp: c tr destructure_def questions_def type_prettier_def nullish_def split: option.splits)
  have 4: "(case vscode argv of
            Some b \<Rightarrow> cfg_vscode c = b \<and> Ask ''vscode'' \<notin> set tr
          | None \<Rightarrow>
              if Ask ''vscode'' \<in> set tr then reply_vscode (terminal h) = Submitted (cfg_vscode c)
              else cfg_vscode c = nullish (yes argv) False)"
    using v v' by (cases "reply_vscode (terminal h)")
      (auto simp: c tr destructure_def questions_def type_vscode_def nullish_def split: option.splits)
  from 1 2 3 4 show ?thesis by blast
qed


text \<open>
  C6. For each of the four toggles (Git, ESLint, Prettier, editor settings): with
  an explicit flag the question of the toggle is never asked, in any session;
  resolution fails only by cancellation; and in a resolved configuration the
  toggle follows the precedence flag, then interactive answer, then default: it
  has the value of the flag if there is one, otherwise the submitted answer if
  its question was asked, and otherwise the default (\<open>argv.yes ?? false\<close>, and for
  Git \<open>(argv.yes && gitAvailable) ?? false\<close>).
\<close>

theorem option_precedence:
  "(git argv \<noteq> None \<longrightarrow> Ask ''git'' \<notin> set (fst (resolveOptions argv initMode h)))
 \<and> (eslint argv \<noteq> None \<longrightarrow> Ask ''eslint'' \<notin> set (fst (resolveOptions argv initMode h)))
 \<and> (prettier argv \<noteq> None \<longrightarrow> Ask ''prettier'' \<notin> set (fst (resolveOptions argv initMode h)))
 \<and> (vscode argv \<noteq> None \<longrightarrow> Ask ''vscode'' \<notin> set (fst (resolveOptions argv initMode h)))
 \<and> (case snd (resolveOptions argv initMode h) of
      Inl e \<Rightarrow> e = ProcessExit 1
    | Inr c \<Rightarrow>
        cfg_git c =
          (case git argv of
             Some b \<Rightarrow> b
           | None \<Rightarrow>
               if Ask ''git'' \<in> set (fst (resolveOptions argv initMode h))
               then (case reply_git (terminal h) of Submitted b \<Rightarrow> b | Cancelled \<Rightarrow> False)
               else nullish (and_also (yes argv) (gitAvailable h)) False)
      \<and> cfg_eslint c =
          (case eslint argv of
             Some b \<Rightarrow> b
           | None \<Rightarrow>
               if Ask ''eslint'' \<in> set (fst (resolveOptions argv initMode h))
               then (case reply_eslint (terminal h) of Submitted b \<Rightarrow> b | Cancelled \<Rightarrow> False)
               else nullish (yes argv) False)
      \<and> cfg_prettier c =
          (case prettier argv of
             Some b \<Rightarrow> b
           | None \<Rightarrow>
               if Ask ''prettier'' \<in> set (fst (resolveOptions argv initMode h))
               then (case reply_prettier (terminal h) of Submitted b \<Rightarrow> b | Cancelled \<Rightarrow> False)
               else nullish (yes argv) False)
      \<and> cfg_vscode c =
          (case vscode argv of
             Some b \<Rightarrow> b
           | None \<Rightarrow>
               if Ask ''vscode'' \<in> set (fst (resolveOptions argv initMode h))
               then (case reply_vscode (terminal h) of Submitted b \<Rightarrow> b | Cancelled \<Rightarrow> False)
               else nullish (yes argv) False)
      \<and> (Ask ''git'' \<in> set (fst (resolveOptions argv initMode h))
            \<longrightarrow> reply_git (terminal h) \<noteq> Cancelled)
      \<and> (Ask ''eslint'' \<in> set (fst (resolveOptions argv initMode h))
            \<longrightarrow> reply_eslint (terminal h) \<noteq> Cancelled)
      \<and> (Ask ''prettier'' \<in> set (fst (resolveOptions argv initMode h))
            \<longrightarrow> reply_prettier (terminal h) \<noteq> Cancelled)
      \<and> (Ask ''vscode'' \<in> set (fst (resolveOptions argv initMode h))
            \<longrightarrow> reply_vscode (terminal h) \<noteq> Cancelled))"
proof -
  let ?tr = "fst (resolveOptions argv initMode h)"
  have q: "e \<in> set ?tr \<Longrightarrow> e \<in> set (questions argv initMode h)" for e
    by (rule resolveOptions_asked)
  have g: "git argv \<noteq> None \<longrightarrow> Ask ''git'' \<notin> set ?tr"
    using q [of "Ask ''git''"] by (auto simp: questions_def type_git_def split: if_splits)
  have e: "eslint argv \<noteq> None \<longrightarrow> Ask ''eslint'' \<notin> set ?tr"
    using q [of "Ask ''eslint''"] by (auto simp: questions_def type_eslint_def split: if_splits)
  have p: "prettier argv \<noteq> None \<longrightarrow> Ask ''prettier'' \<notin> set ?tr"
    using q [of "Ask ''prettier''"] by (auto simp: questions_def type_prettier_def split: if_splits)
  have v: "vscode argv \<noteq> None \<longrightarrow> Ask ''vscode'' \<notin> set ?tr"
    using q [of "Ask ''vscode''"] by (auto simp: questions_def type_vscode_def split: if_splits)
  have out: "case snd (resolveOptions argv initMode h) of
      Inl e \<Rightarrow> e = ProcessExit 1
    | Inr c \<Rightarrow>
        cfg_git c =
          (case git argv of
             Some b \<Rightarrow> b
           | None \<Rightarrow>
               if Ask ''git'' \<in> set ?tr
               then (case reply_git (terminal h) of Submitted b \<Rightarrow> b | Cancelled \<Rightarrow> False)
               else nullish (and_also (yes argv) (gitAvailable h)) False)
      \<and> cfg_eslint c =
          (case eslint argv of
             Some b \<Rightarrow> b
           | None \<Rightarrow>
               if Ask ''eslint'' \<in> set ?tr
               then (case reply_eslint (terminal h) of Submitted b \<Rightarrow> b | Cancelled \<Rightarrow> False)
               else nullish (yes argv) False)
      \<and> cfg_prettier c =
          (case prettier argv of
             Some b \<Rightarrow> b
           | None \<Rightarrow>
               if Ask ''prettier'' \<in> set ?tr
               then (case reply_prettier (terminal h) of Submitted b \<Rightarrow> b | Cancelled \<Rightarrow> False)
               else nullish (yes argv) False)
      \<and> cfg_vscode c =
          (case vscode argv of
             Some b \<Rightarrow> b
           | None \<Rightarrow>
               if Ask ''vscode'' \<in> set ?tr
               then (case reply_vscode (terminal h) of Submitted b \<Rightarrow> b | Cancelled \<Rightarrow> False)
               else nullish (yes argv) False)
      \<and> (Ask ''git'' \<in> set ?tr \<longrightarrow> reply_git (terminal h) \<noteq> Cancelled)
      \<and> (Ask ''eslint'' \<in> set ?tr \<longrightarrow> reply_eslint (terminal h) \<noteq> Cancelled)
      \<and> (Ask ''prettier'' \<in> set ?tr \<longrightarrow> reply_prettier (terminal h) \<noteq> Cancelled)
      \<and> (Ask ''vscode'' \<in> set ?tr \<longrightarrow> reply_vscode (terminal h) \<noteq> Cancelled)"
  proof (cases "snd (resolveOptions argv initMode h)")
    case (Inl e)
    then show ?thesis using resolveOptions_Inl by simp
  next
    case (Inr c)
    then have "resolveOptions argv initMode h = (?tr, Inr c)"
      by (metis prod.collapse)
    from toggles_resolved [OF this] g e p v show ?thesis
      unfolding Inr sum.case
      by (cases "git argv"; cases "eslint argv"; cases "prettier argv"; cases "vscode argv")
         (simp_all split: if_splits)
  qed
  from g e p v out show ?thesis by blast
qed

lemma example_eslint_flag:
  "resolveOptions (no_flags\<lparr>eslint := Some False\<rparr>) Game (example_host [''npm'', ''git''] empty_dir)
     = ([Ask ''git'', Ask ''prettier'', Ask ''vscode''],
        Inr \<lparr>cfg_template = Game, cfg_git = True, cfg_eslint = False, cfg_prettier = True,
             cfg_vscode = True, cfg_packageManager = NPM\<rparr>)"
  by (simp add: resolve_defs example_defs)

theorem option_precedence_witness:
  "eslint (no_flags\<lparr>eslint := Some False\<rparr>) \<noteq> None
   \<and> resolveOptions (no_flags\<lparr>eslint := Some False\<rparr>) Game
         (example_host [''npm'', ''git''] empty_dir)
     = ([Ask ''git'', Ask ''prettier'', Ask ''vscode''],
        Inr \<lparr>cfg_template = Game, cfg_git = True, cfg_eslint = False, cfg_prettier = True,
             cfg_vscode = True, cfg_packageManager = NPM\<rparr>)
   \<and> Ask ''eslint'' \<notin> set [Ask ''git'', Ask ''prettier'', Ask ''vscode'']
   \<and> Ask ''git'' \<in> set [Ask ''git'', Ask ''prettier'', Ask ''vscode'']
   \<and> reply_git (terminal (example_host [''npm'', ''git''] empty_dir)) = Submitted True
   \<and> resolveOptions \<lparr>yes = None, git = Some False, eslint = Some True, prettier = Some False,
                       vscode = Some True, packageManager = Some Yarn3\<rparr> Plugin
         (example_host [''npm'', ''git''] empty_dir)
     = ([], Inr \<lparr>cfg_template = Plugin, cfg_git = False, cfg_eslint = True, cfg_prettier = False,
                cfg_vscode = True, cfg_packageManager = Yarn3\<rparr>)"
  using option_precedence [of "no_flags\<lparr>eslint := Some False\<rparr>" Game
          "example_host [''npm'', ''git''] empty_dir"]
    option_precedence [of "\<lparr>yes = None, git = Some False, eslint = Some True,
          prettier = Some False, vscode = Some True, packageManager = Some Yarn3\<rparr>" Plugin
          "example_host [''npm'', ''git''] empty_dir"]
  by (simp add: resolve_defs example_defs)

text \<open>
  C7. With the recommended-defaults flag set (\<open>--yes\<close>), none of the four toggle
  questions is asked, whether or not the session is cancelled at another
  question; the only way resolution fails is that cancellation; and in the
  resolved configuration every toggle without a flag of its own is on, except
  Git, which is on exactly if Git is detected as available.
\<close>

theorem recommended_defaults:
  assumes "yes argv = Some True"
  shows "Ask ''git'' \<notin> set (fst (resolveOptions argv initMode h))
       \<and> Ask ''eslint'' \<notin> set (fst (resolveOptions argv initMode h))
       \<and> Ask ''prettier'' \<notin> set (fst (resolveOptions argv initMode h))
       \<and> Ask ''vscode'' \<notin> set (fst (resolveOptions argv initMode h))
       \<and> (case snd (resolveOptions argv initMode h) of
            Inl e \<Rightarrow> e = ProcessExit 1
          | Inr c \<Rightarrow>
              cfg_git c = (case git argv of Some b \<Rightarrow> b | None \<Rightarrow> gitAvailable h)
            \<and> cfg_eslint c = (case eslint argv of Some b \<Rightarrow> b | None \<Rightarrow> True)
            \<and> cfg_prettier c = (case prettier argv of Some b \<Rightarrow> b | None \<Rightarrow> True)
            \<and> cfg_vscode c = (case vscode argv of Some b \<Rightarrow> b | None \<Rightarrow> True))"
proof -
  have q: "set (questions argv initMode h) \<subseteq> {Ask ''template''}"
    using assms
    by (auto simp: questions_def type_git_def type_eslint_def type_prettier_def type_vscode_def
        type_packageManager_def split: if_splits)
  have tr: "set (fst (resolveOptions argv initMode h)) \<subseteq> {Ask ''template''}"
    using q resolveOptions_asked by blast
  have none: "Ask ''git'' \<notin> set (fst (resolveOptions argv initMode h))"
    "Ask ''eslint'' \<notin> set (fst (resolveOptions argv initMode h))"
    "Ask ''prettier'' \<notin> set (fst (resolveOptions argv initMode h))"
    "Ask ''vscode'' \<notin> set (fst (resolveOptions argv initMode h))"
    using tr by auto
  have out: "(case snd (resolveOptions argv initMode h) of
            Inl e \<Rightarrow> e = ProcessExit 1
          | Inr c \<Rightarrow>
              cfg_git c = (case git argv of Some b \<Rightarrow> b | None \<Rightarrow> gitAvailable h)
            \<and> cfg_eslint c = (case eslint argv of Some b \<Rightarrow> b | None \<Rightarrow> True)
            \<and> cfg_prettier c = (case prettier argv of Some b \<Rightarrow> b | None \<Rightarrow> True)
            \<and> cfg_vscode c = (case vscode argv of Some b \<Rightarrow> b | None \<Rightarrow> True))"
  proof (cases "snd (resolveOptions argv initMode h)")
    case (Inl e)
    then show ?thesis using resolveOptions_Inl by simp
  next
    case (Inr c)
    then have "resolveOptions argv initMode h = (fst (resolveOptions argv initMode h), Inr c)"
      by (metis prod.collapse)
    then obtain a where p: "prompts argv initMode h = (fst (resolveOptions argv initMode h), Inr a)"
      and c: "c = destructure argv initMode h a"
      by (auto simp: resolveOptions_Inr)
    note facts = p [unfolded prompts_Inr]
    have "ans_git a = None" "ans_eslint a = None" "ans_prettier a = None" "ans_vscode a = None"
      using facts assms
      by (simp_all add: type_git_def type_eslint_def type_prettier_def type_vscode_def)
    then show ?thesis using Inr assms
      by (simp add: c destructure_def nullish_def and_also_def split: option.splits)
  qed
  from none out show ?thesis by blast
qed

theorem recommended_defaults_witness:
  "yes (no_flags\<lparr>yes := Some True\<rparr>) = Some True
   \<and> resolveOptions (no_flags\<lparr>yes := Some True\<rparr>) Game (example_host [''npm''] empty_dir)
       = ([], Inr \<lparr>cfg_template = Game, cfg_git = False, cfg_eslint = True, cfg_prettier = True,
                  cfg_vscode = True, cfg_packageManager = NPM\<rparr>)
   \<and> \<not> gitAvailable (example_host [''npm''] empty_dir)"
  using recommended_defaults [of "no_flags\<lparr>yes := Some True\<rparr>" Game "example_host [''npm''] empty_dir"]
  by (simp add: resolve_defs example_defs)

text \<open>
  C10. With the recommended-defaults flag present and false (\<open>--no-yes\<close>), none of
  the four toggle questions and not the package manager question is asked; the
  only way resolution fails is a cancelled question; and every toggle without a
  flag of its own resolves to false.
\<close>

theorem explicit_false_shortcut:
  assumes "yes argv = Some False"
  shows "Ask ''git'' \<notin> set (fst (resolveOptions argv initMode h))
       \<and> Ask ''eslint'' \<notin> set (fst (resolveOptions argv initMode h))
       \<and> Ask ''prettier'' \<notin> set (fst (resolveOptions argv initMode h))
       \<and> Ask ''vscode'' \<notin> set (fst (resolveOptions argv initMode h))
       \<and> Ask ''packageManager'' \<notin> set (fst (resolveOptions argv initMode h))
       \<and> (case snd (resolveOptions argv initMode h) of
            Inl e \<Rightarrow> e = ProcessExit 1
          | Inr c \<Rightarrow>
              cfg_git c = (case git argv of Some b \<Rightarrow> b | None \<Rightarrow> False)
            \<and> cfg_eslint c = (case eslint argv of Some b \<Rightarrow> b | None \<Rightarrow> False)
            \<and> cfg_prettier c = (case prettier argv of Some b \<Rightarrow> b | None \<Rightarrow> False)
            \<and> cfg_vscode c = (case vscode argv of Some b \<Rightarrow> b | None \<Rightarrow> False))"
proof -
  have q: "set (questions argv initMode h) \<subseteq> {Ask ''template''}"
    using assms
    by (auto simp: questions_def type_git_def type_eslint_def type_prettier_def type_vscode_def
        type_packageManager_def split: if_splits)
  have tr: "set (fst (resolveOptions argv initMode h)) \<subseteq> {Ask ''template''}"
    using q resolveOptions_asked by blast
  have none: "Ask ''git'' \<notin> set (fst (resolveOptions argv initMode h))"
    "Ask ''eslint'' \<notin> set (fst (resolveOptions argv initMode h))"
    "Ask ''prettier'' \<notin> set (fst (resolveOptions argv initMode h))"
    "Ask ''vscode'' \<notin> set (fst (resolveOptions argv initMode h))"
    "Ask ''packageManager'' \<notin> set (fst (resolveOptions argv initMode h))"
    using tr by auto
  have out: "(case snd (resolveOptions argv initMode h) of
            Inl e \<Rightarrow> e = ProcessExit 1
          | Inr c \<Rightarrow>
              cfg_git c = (case git argv of Some b \<Rightarrow> b | None \<Rightarrow> False)
            \<and> cfg_eslint c = (case eslint argv of Some b \<Rightarrow> b | None \<Rightarrow> False)
            \<and> cfg_prettier c = (case prettier argv of Some b \<Rightarrow> b | None \<Rightarrow> False)
            \<and> cfg_vscode c = (case vscode argv of Some b \<Rightarrow> b | None \<Rightarrow> False))"
  proof (cases "snd (resolveOptions argv initMode h)")
    case (Inl e)
    then show ?thesis using resolveOptions_Inl by simp
  next
    case (Inr c)
    then have "resolveOptions argv initMode h = (fst (resolveOptions argv initMode h), Inr c)"
      by (metis prod.collapse)
    then obtain a where p: "prompts argv initMode h = (fst (resolveOptions argv initMode h), Inr a)"
      and c: "c = destructure argv initMode h a"
      by (auto simp: resolveOptions_Inr)
    note facts = p [unfolded prompts_Inr]
    have "ans_git a = None" "ans_eslint a = None" "ans_prettier a = None" "ans_vscode a = None"
      using facts assms
      by (simp_all add: type_git_def type_eslint_def type_prettier_def type_vscode_def)
    then show ?thesis using Inr assms
      by (simp add: c destructure_def nullish_def and_also_def split: option.splits)
  qed
  from none out show ?thesis by blast
qed

theorem explicit_false_shortcut_witness:
  "yes (no_flags\<lparr>yes := Some False\<rparr>) = Some False
   \<and> resolveOptions (no_flags\<lparr>yes := Some False\<rparr>) Game
         (example_host [''npm'', ''pnpm'', ''yarn'', ''git''] empty_dir)
       = ([], Inr \<lparr>cfg_template = Game, cfg_git = False, cfg_eslint = False, cfg_prettier = False,
                  cfg_vscode = False, cfg_packageManager = NPM\<rparr>)"
  using explicit_false_shortcut [of "no_flags\<lparr>yes := Some False\<rparr>" Game
          "example_host [''npm'', ''pnpm'', ''yarn'', ''git''] empty_dir"]
  by (simp add: resolve_defs example_defs)

subsection \<open>The chosen package manager\<close>

text \<open>
  C1, as the code has it. In a resolution that is not cancelled, a package manager
  named by the flag is the one chosen, and its availability is not consulted.
  Without the flag, the chosen package manager is available whenever npm is
  available or the choice was made at the package manager question.
\<close>

theorem chosen_manager_flagged_or_available:
  assumes "resolveOptions argv initMode h = (tr, Inr c)"
  shows "case packageManager argv of
           Some pm \<Rightarrow> cfg_packageManager c = pm
         | None \<Rightarrow>
             (npmAvailable h
              \<or> (Ask ''packageManager'' \<in> set tr
                 \<and> (\<exists>i < length (packageManagerChoices h).
                       reply_packageManager (terminal h) = Submitted i)))
             \<longrightarrow> packageManagerExistance h (cfg_packageManager c)"
proof -
  from assms obtain a where p: "prompts argv initMode h = (tr, Inr a)"
    and c: "c = destructure argv initMode h a"
    by (auto simp: resolveOptions_Inr)
  note facts = p [unfolded prompts_Inr]
  have tr: "tr = questions argv initMode h" using facts by simp
  have m: "ans_packageManager a =
            (if type_packageManager argv h then
               (case reply_packageManager (terminal h) of
                  Submitted i \<Rightarrow> if i < length (packageManagerChoices h)
                                   then Some (packageManagerChoices h ! i) else None
                | Cancelled \<Rightarrow> None)
             else None)" using facts by simp
  have choice: "packageManagerExistance h (packageManagerChoices h ! i)"
    if "i < length (packageManagerChoices h)" for i
  proof -
    have "packageManagerChoices h ! i
            \<in> set (filter (packageManagerExistance h) [NPM, Yarn, Yarn3, PNPM])"
      using nth_mem [OF that] unfolding packageManagerChoices_def .
    then show ?thesis unfolding set_filter by blast
  qed
  have asked: "Ask ''packageManager'' \<in> set tr \<longleftrightarrow> type_packageManager argv h"
    by (auto simp: tr questions_def split: if_splits)
  show ?thesis
  proof (cases "packageManager argv")
    case (Some pm)
    then show ?thesis using m by (simp add: c destructure_def nullish_def type_packageManager_def)
  next
    case None
    show ?thesis
    proof (cases "reply_packageManager (terminal h)")
      case Cancelled
      then show ?thesis using None m asked
        by (auto simp: c destructure_def nullish_def)
    next
      case (Submitted i)
      then show ?thesis using None m asked choice [of i]
        by (auto simp: c destructure_def nullish_def)
    qed
  qed
qed

lemma example_yarn_pnpm:
  "resolveOptions no_flags Game (example_host [''pnpm'', ''yarn'', ''git''] empty_dir)
     = ([Ask ''git'', Ask ''eslint'', Ask ''prettier'', Ask ''vscode'', Ask ''packageManager''],
        Inr \<lparr>cfg_template = Game, cfg_git = True, cfg_eslint = True, cfg_prettier = True,
             cfg_vscode = True, cfg_packageManager = Yarn\<rparr>)"
  by (simp add: resolve_defs example_defs)

lemma example_flag_yarn3:
  "resolveOptions (no_flags\<lparr>packageManager := Some Yarn3\<rparr>) Game
     (example_host [''npm'', ''yarn'', ''git''] empty_dir)
     = ([Ask ''git'', Ask ''eslint'', Ask ''prettier'', Ask ''vscode''],
        Inr \<lparr>cfg_template = Game, cfg_git = True, cfg_eslint = True, cfg_prettier = True,
             cfg_vscode = True, cfg_packageManager = Yarn3\<rparr>)"
  by (simp add: resolve_defs example_defs)

theorem chosen_manager_flagged_or_available_witness:
  "resolveOptions no_flags Game (example_host [''pnpm'', ''yarn'', ''git''] empty_dir)
     = ([Ask ''git'', Ask ''eslint'', Ask ''prettier'', Ask ''vscode'', Ask ''packageManager''],
        Inr \<lparr>cfg_template = Game, cfg_git = True, cfg_eslint = True, cfg_prettier = True,
             cfg_vscode = True, cfg_packageManager = Yarn\<rparr>)
   \<and> packageManager no_flags = None
   \<and> reply_packageManager (terminal (example_host [''pnpm'', ''yarn'', ''git''] empty_dir)) = Submitted 0
   \<and> 0 < length (packageManagerChoices (example_host [''pnpm'', ''yarn'', ''git''] empty_dir))
   \<and> packageManagerExistance (example_host [''pnpm'', ''yarn'', ''git''] empty_dir) Yarn
   \<and> resolveOptions (no_flags\<lparr>packageManager := Some Yarn3\<rparr>) Game
         (example_host [''npm'', ''yarn'', ''git''] empty_dir)
     = ([Ask ''git'', Ask ''eslint'', Ask ''prettier'', Ask ''vscode''],
        Inr \<lparr>cfg_template = Game, cfg_git = True, cfg_eslint = True, cfg_prettier = True,
             cfg_vscode = True, cfg_packageManager = Yarn3\<rparr>)"
  using chosen_manager_flagged_or_available [OF example_yarn_pnpm]
    chosen_manager_flagged_or_available [OF example_flag_yarn3]
    example_yarn_pnpm example_flag_yarn3
  by (simp add: resolve_defs example_defs)

text \<open>
  C1 as stated fails where the flag names a package manager that is not
  installed: the resolved configuration has it, the run passes the conflict check
  and starts the pipeline with its init command.
\<close>

theorem flagged_manager_not_available:
  "resolveOptions (no_flags\<lparr>yes := Some True, packageManager := Some PNPM\<rparr>) Game
       (example_host [''npm'', ''git''] empty_dir)
     = ([], Inr \<lparr>cfg_template = Game, cfg_git = True, cfg_eslint = True, cfg_prettier = True,
                cfg_vscode = True, cfg_packageManager = PNPM\<rparr>)
   \<and> \<not> packageManagerExistance (example_host [''npm'', ''git''] empty_dir) PNPM
   \<and> init (no_flags\<lparr>yes := Some True, packageManager := Some PNPM\<rparr>) Game
        (example_host [''npm'', ''git''] empty_dir)
     = ([Step ''Initializing package.json..'', Exec ''pnpm init''],
        Inl (CommandError \<lparr>exc_cmd = ''pnpm init'', exc_code = ''127'',
                           exc_message = ''Command failed: pnpm init''\<rparr>))"
  by (simp add: init_defs resolve_defs example_defs conflict_defs paths_defs pipeline_defs)

text \<open>Without the flag and with at most one available entry, the choice is npm, unasked.\<close>

lemma unprompted_manager_is_npm:
  assumes "resolveOptions argv initMode h = (tr, Inr c)"
      and "packageManager argv = None"
      and "packageManagerCount h \<le> 1"
  shows "Ask ''packageManager'' \<notin> set tr \<and> cfg_packageManager c = NPM"
proof -
  from assms(1) obtain a where p: "prompts argv initMode h = (tr, Inr a)"
    and c: "c = destructure argv initMode h a"
    by (auto simp: resolveOptions_Inr)
  note facts = p [unfolded prompts_Inr]
  have no: "\<not> type_packageManager argv h"
    using assms(3) by (simp add: type_packageManager_def)
  have "tr = questions argv initMode h" using facts by simp
  with no have "Ask ''packageManager'' \<notin> set tr"
    by (auto simp: questions_def split: if_splits)
  moreover have "ans_packageManager a = None" using facts no by simp
  then have "cfg_packageManager c = NPM"
    using assms(2) by (simp add: c destructure_def nullish_def)
  ultimately show ?thesis by blast
qed

text \<open>
  C2 at the host where pnpm is the only package manager installed and no flag is
  given: exactly one entry of the availability table is true, the package
  manager question is not asked, and the resolved package manager is npm, which
  is not available; the first step then runs \<open>npm init -y\<close>, which fails.
\<close>

theorem only_pnpm_selects_npm:
  "packageManagerCount (example_host [''pnpm'', ''git''] empty_dir) = 1
   \<and> packageManagerExistance (example_host [''pnpm'', ''git''] empty_dir) PNPM
   \<and> \<not> packageManagerExistance (example_host [''pnpm'', ''git''] empty_dir) NPM
   \<and> resolveOptions no_flags Game (example_host [''pnpm'', ''git''] empty_dir)
       = ([Ask ''git'', Ask ''eslint'', Ask ''prettier'', Ask ''vscode''],
          Inr \<lparr>cfg_template = Game, cfg_git = True, cfg_eslint = True, cfg_prettier = True,
               cfg_vscode = True, cfg_packageManager = NPM\<rparr>)
   \<and> init no_flags Game (example_host [''pnpm'', ''git''] empty_dir)
       = ([Ask ''git'', Ask ''eslint'', Ask ''prettier'', Ask ''vscode'',
           Step ''Initializing package.json..'', Exec ''npm init -y''],
          Inl (CommandError \<lparr>exc_cmd = ''npm init -y'', exc_code = ''127'',
                             exc_message = ''Command failed: npm init -y''\<rparr>))"
  by (simp add: init_defs resolve_defs example_defs conflict_defs paths_defs pipeline_defs)

subsection \<open>Conflict detection\<close>

lemma existingPaths_detected:
  assumes "\<forall>p \<in> set ps. \<not> unlistable wd p"
  shows "existingPaths wd ps found = Inr (found @ filter (detected wd) ps)"
  using assms
proof (induction ps arbitrary: found)
  case Nil
  show ?case by simp
next
  case (Cons p ps)
  then have rest: "existingPaths wd ps acc = Inr (acc @ filter (detected wd) ps)" for acc
    by simp
  from Cons.prems have ok: "\<not> unlistable wd p" by simp
  show ?case
  proof (cases "reached wd p")
    case None
    then have "\<not> detected wd p" by (simp add: detected_def)
    with None show ?thesis by (simp add: rest pathExists_def)
  next
    case (Some n)
    show ?thesis
    proof (cases n)
      case File
      with Some have "detected wd p \<longleftrightarrow> p \<noteq> []" by (simp add: detected_def)
      with Some File show ?thesis
        by (simp add: rest pathExists_def stat_def isFile_def)
    next
      case (Directory names)
      with Some have "detected wd p \<longleftrightarrow> p \<noteq> [] \<and> names \<noteq> []" by (simp add: detected_def)
      with Some Directory show ?thesis
        by (simp add: rest pathExists_def stat_def isFile_def isSymbolicLink_def readdir_def)
    next
      case (Unreadable names)
      with Some ok have "p = []" by (simp add: unlistable_def)
      then have "\<not> detected wd p" by (simp add: detected_def)
      with \<open>p = []\<close> show ?thesis by (simp add: rest)
    next
      case Special
      with Some ok have "p = []" by (simp add: unlistable_def)
      then have "\<not> detected wd p" by (simp add: detected_def)
      with \<open>p = []\<close> show ?thesis by (simp add: rest)
    qed
  qed
qed

lemma existingPaths_unlistable:
  assumes "\<exists>p \<in> set ps. unlistable wd p"
  shows "\<exists>q \<in> set ps. unlistable wd q \<and> existingPaths wd ps found = Inl (ReaddirError q)"
  using assms
proof (induction ps arbitrary: found)
  case Nil
  then show ?case by simp
next
  case (Cons p ps)
  show ?case
  proof (cases "unlistable wd p")
    case True
    then have "existingPaths wd (p # ps) found = Inl (ReaddirError p)"
      by (cases "reached wd p"; cases "the (reached wd p)")
        (simp_all add: unlistable_def pathExists_def stat_def isFile_def isSymbolicLink_def
          readdir_def)
    with True show ?thesis by auto
  next
    case False
    with Cons.prems have "\<exists>p \<in> set ps. unlistable wd p" by auto
    then have ih: "\<exists>q \<in> set ps. unlistable wd q \<and> existingPaths wd ps acc = Inl (ReaddirError q)"
      for acc by (rule Cons.IH)
    have "\<exists>acc. existingPaths wd (p # ps) found = existingPaths wd ps acc"
    proof (cases "reached wd p")
      case None
      then show ?thesis by (auto simp: pathExists_def)
    next
      case (Some n)
      with False show ?thesis
        by (cases n)
          (auto simp: unlistable_def pathExists_def stat_def isFile_def isSymbolicLink_def
            readdir_def)
    qed
    then obtain acc where "existingPaths wd (p # ps) found = existingPaths wd ps acc" ..
    with ih [of acc] show ?thesis by auto
  qed
qed

lemma checkConflicts_eq:
  assumes "\<forall>p \<in> set ps. \<not> unlistable wd p"
  shows "checkConflicts wd ps =
     (if filter (detected wd) ps = [] then ([], Inr ())
      else ([], Inl (OverwriteError (filter (detected wd) ps))))"
  by (simp add: checkConflicts_def existingPaths_detected [OF assms] failed_def done_with_def)

lemma stat_never_link: "stat wd p \<noteq> Inr StatsSymbolicLink"
  by (simp add: stat_def split: option.splits node.splits)

text \<open>
  What is detected is a conflict in the words of the specification; on a plain
  file or a plain readable directory the two notions agree, and on a link they
  differ exactly where the link dangles or points to an empty directory.
\<close>

lemma detected_conflicting: "detected wd p \<Longrightarrow> conflicting wd p"
  by (cases "wd p"; cases "the (wd p)"; cases "reached wd p"; cases "the (reached wd p)")
    (auto simp: detected_def conflicting_def reached_def)

lemma conflicting_plain:
  assumes "wd p = Some (Plain n)" and "p \<noteq> []" and "\<not> unlistable wd p"
  shows "detected wd p \<longleftrightarrow> conflicting wd p"
  using assms by (cases n) (simp_all add: detected_def conflicting_def unlistable_def reached_def)

lemma conflicting_link_missed:
  assumes "wd p = Some (Symlink target)" and "p \<noteq> []"
  shows "conflicting wd p \<and>
         (detected wd p \<longleftrightarrow>
            target = Some File \<or> (\<exists>names. target = Some (Directory names) \<and> names \<noteq> []))"
  using assms
  by (cases target; cases "the target") (simp_all add: detected_def conflicting_def reached_def)

text \<open>
  Where every candidate path is empty, absent, a plain regular file or a plain
  readable directory, the list of the overwrite error is every conflicting
  candidate, in candidate order, and the run has no effect but its questions.
\<close>

lemma plain_conflicts_all_reported:
  assumes "resolveOptions argv initMode h = (tr, Inr c)"
      and "templateFiles h (cfg_template c) = Inr fileNames"
      and plain: "\<forall>p \<in> set (pathValues fileNames). p \<noteq> [] \<and>
             (cwd_entries h p = None \<or> cwd_entries h p = Some (Plain File)
              \<or> (\<exists>names. cwd_entries h p = Some (Plain (Directory names))))"
      and "filter (conflicting (cwd_entries h)) (pathValues fileNames) \<noteq> []"
  shows "init argv initMode h
           = (tr, Inl (OverwriteError (filter (conflicting (cwd_entries h)) (pathValues fileNames))))
       \<and> (\<forall>e \<in> set tr. \<exists>name. e = Ask name)"
proof -
  have ok: "\<forall>p \<in> set (pathValues fileNames). \<not> unlistable (cwd_entries h) p"
    using plain by (auto simp: unlistable_def reached_def)
  have same: "detected (cwd_entries h) p = conflicting (cwd_entries h) p"
    if "p \<in> set (pathValues fileNames)" for p
    using plain that by (auto simp: detected_def conflicting_def reached_def)
  then have "filter (detected (cwd_entries h)) (pathValues fileNames)
               = filter (conflicting (cwd_entries h)) (pathValues fileNames)"
    by (intro filter_cong) auto
  with assms(1,2,4) have "init argv initMode h
           = (tr, Inl (OverwriteError (filter (conflicting (cwd_entries h)) (pathValues fileNames))))"
    by (simp add: init_def await_def and_then_def readTemplateDir_def done_with_def
        checkConflicts_eq [OF ok])
  moreover have "\<forall>e \<in> set tr. \<exists>name. e = Ask name"
    using resolveOptions_asked [of _ argv initMode h] questions_Ask assms(1) by fastforce
  ultimately show ?thesis by blast
qed

text \<open>
  A link to a regular file is detected; an empty directory is not.
\<close>

lemma example_detection:
  "init (no_flags\<lparr>yes := Some True\<rparr>) Game (example_host [''npm'', ''git''] cluttered_dir)
     = ([], Inl (OverwriteError [''package.json'', ''.eslintignore'', ''src'']))"
  by (simp add: init_defs resolve_defs conflict_defs paths_defs example_defs cluttered_dir_def
      and_then_def)

text \<open>
  A special file at a candidate path ends the run with the rejection of
  \<open>fs.readdir\<close>, whatever else conflicts.
\<close>

lemma special_file_stops_detection:
  "filter (conflicting (cwd_entries (example_host [''npm'', ''git''] fifo_dir)))
     (pathValues [''default.project.json'', ''src''])
   = [''package.json'']
   \<and> init (no_flags\<lparr>yes := Some True\<rparr>) Game (example_host [''npm'', ''git''] fifo_dir)
     = ([], Inl (ReaddirError ''tsconfig.json''))"
  by (simp add: conflicting_def init_defs resolve_defs conflict_defs paths_defs example_defs
      fifo_dir_def and_then_def)

text \<open>
  C4 at two working directories. In the first, \<open>package.json\<close> is a regular file,
  \<open>.gitignore\<close> a link to an empty directory and \<open>.gitattributes\<close> a dangling link:
  three candidate paths conflict, and the error lists \<open>package.json\<close> only. In the
  second the link at \<open>.gitignore\<close> is the only entry: one candidate path
  conflicts, no error is raised, and the run completes, its Git step copying
  onto \<open>.gitignore\<close>.
\<close>

theorem linked_conflicts_not_enumerated:
  "filter (conflicting (cwd_entries (example_host [''npm'', ''git''] linked_dir)))
     (pathValues [''default.project.json'', ''src''])
   = [''package.json'', ''.gitignore'', ''.gitattributes'']
   \<and> init (no_flags\<lparr>yes := Some True\<rparr>) Game (example_host [''npm'', ''git''] linked_dir)
     = ([], Inl (OverwriteError [''package.json'']))
   \<and> filter (conflicting (cwd_entries (example_host [''npm'', ''git''] only_link_dir)))
        (pathValues [''default.project.json'', ''src''])
     = [''.gitignore'']
   \<and> snd (init (no_flags\<lparr>yes := Some True\<rparr>) Game
            (example_host [''npm'', ''git''] only_link_dir)) = Inr ()
   \<and> CopyFile ''__dirname/templates/.gitignore'' ''.gitignore''
       \<in> set (fst (init (no_flags\<lparr>yes := Some True\<rparr>) Game
                      (example_host [''npm'', ''git''] only_link_dir)))"
  by (simp add: conflicting_def init_defs resolve_defs conflict_defs paths_defs example_defs
      pipeline_defs linked_dir_def only_link_dir_def)

text \<open>
  C5 at a working directory in which \<open>.gitignore\<close> is a symbolic link to an empty
  directory: the path is a candidate and exists, \<open>fs.stat\<close> describes the
  directory the link points to, the path is not reported, and the check passes.
\<close>

theorem symlink_to_empty_directory_not_reported:
  "(empty_dir(''.gitignore'' := Some (Symlink (Some (Directory []))))) ''.gitignore''
      = Some (Symlink (Some (Directory [])))
   \<and> ''.gitignore'' \<in> set (pathValues [''default.project.json'', ''src''])
   \<and> pathExists (empty_dir(''.gitignore'' := Some (Symlink (Some (Directory []))))) ''.gitignore''
   \<and> stat (empty_dir(''.gitignore'' := Some (Symlink (Some (Directory []))))) ''.gitignore''
        = Inr StatsDirectory
   \<and> existingPaths (empty_dir(''.gitignore'' := Some (Symlink (Some (Directory [])))))
        (pathValues [''default.project.json'', ''src'']) [] = Inr []
   \<and> checkConflicts (empty_dir(''.gitignore'' := Some (Symlink (Some (Directory [])))))
        (pathValues [''default.project.json'', ''src'']) = ([], Inr ())"
  by (simp add: example_defs conflict_defs paths_defs done_with_def)

subsection \<open>The pipeline\<close>

lemma and_then_effect:
  "e \<in> set (fst (and_then m n)) \<Longrightarrow> e \<in> set (fst m) \<or> e \<in> set (fst n)"
  unfolding and_then_def by (drule await_effect) blast

lemma and_then_Inr:
  "and_then m n = (tr, Inr y) \<longleftrightarrow>
     (\<exists>tr1 tr2. m = (tr1, Inr ()) \<and> n = (tr2, Inr y) \<and> tr = tr1 @ tr2)"
  by (simp add: and_then_def await_Inr)

lemma and_then_prefix: "\<exists>rest. fst (and_then m n) = fst m @ rest"
  by (cases m; cases "snd m"; cases n) (auto simp: and_then_def await_def)

lemma fst_cmd: "fst (cmd h cmdStr) = [Exec cmdStr]"
  by (simp add: cmd_def split: option.splits)

lemma fst_gitHint: "fst (gitHint m) = fst m"
  by (cases m; cases "snd m") (auto simp: gitHint_def split: failure.splits)

lemma fst_perform: "fst (perform e) = [e]"
  by (simp add: perform_def)

lemma written_settings:
  assumes "OutputFile paths_settings s \<in> set (fst (pipeline h c))"
  shows "cfg_vscode c \<and> s = JObj (vscodeSettings c)"
  using assms unfolding pipeline_def
  apply (elim and_then_effect [THEN disjE])
  apply (auto simp: initPackageJson_def initGit_def installDependencies_def setupYarn3_def
        configureEslint_def configurePrettier_def configureVscode_def copyTemplate_def compile_def
        benchmark_def when_enabled_def fst_cmd fst_gitHint fst_perform done_with_def Let_def
        paths_settings_def paths_packageJson_def paths_extensions_def
      dest!: and_then_effect split: if_splits)
  done


lemma fst_done_with: "fst (done_with x) = []"
  by (simp add: done_with_def)

text \<open>A run that completes ends with the build step, whose command is fixed.\<close>

lemma completed_run_ends_with_npm_build:
  assumes "pipeline h c = (tr, Inr ())"
  shows "\<exists>before. tr = before @ [Step ''Compiling..'', Exec ''npm run build'']"
proof -
  from assms obtain before t where t: "compile h = (t, Inr ())" and tr: "tr = before @ t"
    unfolding pipeline_def and_then_Inr by (metis append.assoc)
  from t have "t = [Step ''Compiling..'', Exec ''npm run build'']"
    by (auto simp: compile_def benchmark_def and_then_Inr perform_def cmd_def split: option.splits)
  with tr show ?thesis by blast
qed

text \<open>
  C3 at a run with \<open>--packageManager pnpm\<close>: the run completes, its last effect is
  the command \<open>npm run build\<close>, and the build entry of the registry for the chosen
  package manager is \<open>pnpm run build\<close>.
\<close>

theorem final_step_runs_npm:
  "resolveOptions (no_flags\<lparr>yes := Some True, packageManager := Some PNPM\<rparr>) Game
       (example_host [''npm'', ''pnpm'', ''git''] empty_dir)
     = ([], Inr \<lparr>cfg_template = Game, cfg_git = True, cfg_eslint = True, cfg_prettier = True,
                cfg_vscode = True, cfg_packageManager = PNPM\<rparr>)
   \<and> snd (init (no_flags\<lparr>yes := Some True, packageManager := Some PNPM\<rparr>) Game
            (example_host [''npm'', ''pnpm'', ''git''] empty_dir)) = Inr ()
   \<and> last (fst (init (no_flags\<lparr>yes := Some True, packageManager := Some PNPM\<rparr>) Game
              (example_host [''npm'', ''pnpm'', ''git''] empty_dir))) = Exec ''npm run build''
   \<and> cmd_build (packageManagerCommands PNPM) = ''pnpm run build''"
  by (simp add: init_defs resolve_defs example_defs conflict_defs paths_defs pipeline_defs)

text \<open>
  C9. The only settings document a run writes is the one built from the
  resolved configuration, it is written only with the editor step enabled, and a
  run that completes with the step enabled writes it. In that document the
  default formatter of both language blocks is the ESLint extension whenever
  ESLint is on (with or without Prettier), and the Prettier extension when
  Prettier is on and ESLint is off.
\<close>

theorem editor_default_formatter:
  "(snd (pipeline h c) = Inr () \<and> cfg_vscode c
          \<longrightarrow> OutputFile paths_settings (JObj (vscodeSettings c)) \<in> set (fst (pipeline h c)))
       \<and> (\<forall>s. OutputFile paths_settings s \<in> set (fst (pipeline h c))
              \<longrightarrow> cfg_vscode c \<and> s = JObj (vscodeSettings c))
       \<and> (cfg_eslint c \<longrightarrow>
            defaultFormatter ''[typescript]'' (vscodeSettings c) = Some (JStr ''dbaeumer.vscode-eslint'')
          \<and> defaultFormatter ''[typescriptreact]'' (vscodeSettings c) = Some (JStr ''dbaeumer.vscode-eslint''))
       \<and> (cfg_prettier c \<and> \<not> cfg_eslint c \<longrightarrow>
            defaultFormatter ''[typescript]'' (vscodeSettings c) = Some (JStr ''esbenp.prettier-vscode'')
          \<and> defaultFormatter ''[typescriptreact]'' (vscodeSettings c) = Some (JStr ''esbenp.prettier-vscode''))"
proof -
  obtain tr r where run: "pipeline h c = (tr, r)"
    by (cases "pipeline h c")
  have written: "OutputFile paths_settings (JObj (vscodeSettings c)) \<in> set tr"
    if "r = Inr ()" and "cfg_vscode c"
  proof -
    from run that have "\<exists>t2. configureVscode h c = (t2, Inr ()) \<and> set t2 \<subseteq> set tr"
      by (auto simp: pipeline_def and_then_Inr when_enabled_def)
    then obtain t2 where t2: "configureVscode h c = (t2, Inr ())" and sub: "set t2 \<subseteq> set tr"
      by blast
    from t2 have "OutputFile paths_settings (JObj (vscodeSettings c)) \<in> set t2"
      by (auto simp: configureVscode_def benchmark_def and_then_Inr perform_def)
    with sub show ?thesis by blast
  qed
  have only: "cfg_vscode c \<and> s = JObj (vscodeSettings c)" if "OutputFile paths_settings s \<in> set tr" for s
    using written_settings [of s h c] that run by simp
  have linter: "defaultFormatter ''[typescript]'' (vscodeSettings c) = Some (JStr ''dbaeumer.vscode-eslint'')
          \<and> defaultFormatter ''[typescriptreact]'' (vscodeSettings c) = Some (JStr ''dbaeumer.vscode-eslint'')"
    if "cfg_eslint c"
    using that by (simp add: vscodeSettings_def defaultFormatter_def formatterBlock_def Let_def)
  have formatter: "defaultFormatter ''[typescript]'' (vscodeSettings c) = Some (JStr ''esbenp.prettier-vscode'')
          \<and> defaultFormatter ''[typescriptreact]'' (vscodeSettings c) = Some (JStr ''esbenp.prettier-vscode'')"
    if "cfg_prettier c" and "\<not> cfg_eslint c"
    using that by (simp add: vscodeSettings_def defaultFormatter_def formatterBlock_def Let_def)
  from written only linter formatter show ?thesis unfolding run fst_conv snd_conv by blast
qed

theorem editor_default_formatter_witness:
  "snd (pipeline (example_host [''npm'', ''git''] empty_dir)
          \<lparr>cfg_template = Model, cfg_git = False, cfg_eslint = False, cfg_prettier = True,
           cfg_vscode = True, cfg_packageManager = NPM\<rparr>) = Inr ()
   \<and> OutputFile ''.vscode/settings.json''
        (JObj [(''typescript.enablePromptUseWorkspaceTsdk'', JBool True),
               (''[typescript]'',
                JObj [(''editor.defaultFormatter'', JStr ''esbenp.prettier-vscode''),
                      (''editor.formatOnSave'', JBool True)]),
               (''[typescriptreact]'',
                JObj [(''editor.defaultFormatter'', JStr ''esbenp.prettier-vscode''),
                      (''editor.formatOnSave'', JBool True)])])
      \<in> set (fst (pipeline (example_host [''npm'', ''git''] empty_dir)
                \<lparr>cfg_template = Model, cfg_git = False, cfg_eslint = False, cfg_prettier = True,
                 cfg_vscode = True, cfg_packageManager = NPM\<rparr>))
   \<and> snd (pipeline (example_host [''npm'', ''git''] empty_dir)
          \<lparr>cfg_template = Model, cfg_git = False, cfg_eslint = True, cfg_prettier = True,
           cfg_vscode = True, cfg_packageManager = NPM\<rparr>) = Inr ()
   \<and> OutputFile ''.vscode/settings.json''
        (JObj [(''typescript.enablePromptUseWorkspaceTsdk'', JBool True),
               (''[typescript]'',
                JObj [(''editor.defaultFormatter'', JStr ''dbaeumer.vscode-eslint''),
                      (''editor.formatOnSave'', JBool True)]),
               (''[typescriptreact]'',
                JObj [(''editor.defaultFormatter'', JStr ''dbaeumer.vscode-eslint''),
                      (''editor.formatOnSave'', JBool True)]),
               (''eslint.run'', JStr ''onType''),
               (''eslint.format.enable'', JBool True)])
      \<in> set (fst (pipeline (example_host [''npm'', ''git''] empty_dir)
                \<lparr>cfg_template = Model, cfg_git = False, cfg_eslint = True, cfg_prettier = True,
                 cfg_vscode = True, cfg_packageManager = NPM\<rparr>))"
  using editor_default_formatter [of "example_host [''npm'', ''git''] empty_dir"
          "\<lparr>cfg_template = Model, cfg_git = False, cfg_eslint = False, cfg_prettier = True,
            cfg_vscode = True, cfg_packageManager = NPM\<rparr>"]
    editor_default_formatter [of "example_host [''npm'', ''git''] empty_dir"
          "\<lparr>cfg_template = Model, cfg_git = False, cfg_eslint = True, cfg_prettier = True,
            cfg_vscode = True, cfg_packageManager = NPM\<rparr>"]
  by (simp add: example_defs paths_defs pipeline_defs)

text \<open>
  C8. When the init command of the chosen package manager succeeds, the first
  three effects of the pipeline are the label of the manifest step, that command,
  and the write of the rewritten manifest. In package mode the manifest's name is
  \<open>@rbxts/\<close> followed by the name the init command gave, its \<open>main\<close> is
  \<open>out/init.lua\<close> and its \<open>prepublishOnly\<close> script is the build command of the chosen
  package manager. In every other mode each field other than \<open>scripts\<close> is as the
  init command left it, and \<open>scripts\<close> holds \<open>build\<close> and \<open>watch\<close> only.
\<close>

theorem manifest_rewrite:
  assumes "exec h (cmd_init (packageManagerCommands (cfg_packageManager c))) = None"
  shows "take 3 (fst (pipeline h c))
           = [Step ''Initializing package.json..'',
              Exec (cmd_init (packageManagerCommands (cfg_packageManager c))),
              OutputFile paths_packageJson
                (JObj (rewriteManifest (cfg_template c)
                         (packageManagerCommands (cfg_packageManager c)) (manifest h)))]
       \<and> (let m = rewriteManifest (cfg_template c)
                     (packageManagerCommands (cfg_packageManager c)) (manifest h)
          in if cfg_template c = Package then
               map_of m ''name''
                 = Some (JStr (''@rbxts/'' @ js_string_prop (map_of (manifest h) ''name'')))
             \<and> (\<forall>n. map_of (manifest h) ''name'' = Some (JStr n)
                    \<longrightarrow> map_of m ''name'' = Some (JStr (''@rbxts/'' @ n)))
             \<and> map_of m ''main'' = Some (JStr ''out/init.lua'')
             \<and> script ''prepublishOnly'' m
                 = Some (JStr (cmd_build (packageManagerCommands (cfg_packageManager c))))
             else
               (\<forall>k. k \<noteq> ''scripts'' \<longrightarrow> map_of m k = map_of (manifest h) k)
             \<and> map_of m ''scripts''
                 = Some (JObj [(''build'', JStr ''rbxtsc''), (''watch'', JStr ''rbxtsc -w'')]))"
proof -
  let ?m = "rewriteManifest (cfg_template c) (packageManagerCommands (cfg_packageManager c)) (manifest h)"
  have step: "initPackageJson h c
           = ([Step ''Initializing package.json..'',
              Exec (cmd_init (packageManagerCommands (cfg_packageManager c))),
              OutputFile paths_packageJson (JObj ?m)], Inr ())"
    using assms by (simp add: initPackageJson_def benchmark_def and_then_def await_def perform_def cmd_def)
  obtain rest where "fst (pipeline h c) = fst (initPackageJson h c) @ rest"
    unfolding pipeline_def using and_then_prefix by blast
  with step have run: "take 3 (fst (pipeline h c))
           = [Step ''Initializing package.json..'',
              Exec (cmd_init (packageManagerCommands (cfg_packageManager c))),
              OutputFile paths_packageJson (JObj ?m)]"
    by simp
  have pkg: "map_of ?m ''name''
                 = Some (JStr (''@rbxts/'' @ js_string_prop (map_of (manifest h) ''name'')))
             \<and> (\<forall>n. map_of (manifest h) ''name'' = Some (JStr n)
                    \<longrightarrow> map_of ?m ''name'' = Some (JStr (''@rbxts/'' @ n)))
             \<and> map_of ?m ''main'' = Some (JStr ''out/init.lua'')
             \<and> script ''prepublishOnly'' ?m
                 = Some (JStr (cmd_build (packageManagerCommands (cfg_packageManager c))))"
    if "cfg_template c = Package"
    using that
    by (simp add: rewriteManifest_def Let_def update_conv' script_def buildScripts_def
        RBXTS_SCOPE_def js_string_prop_def)
  have other: "(\<forall>k. k \<noteq> ''scripts'' \<longrightarrow> map_of ?m k = map_of (manifest h) k)
             \<and> map_of ?m ''scripts''
                 = Some (JObj [(''build'', JStr ''rbxtsc''), (''watch'', JStr ''rbxtsc -w'')])"
    if "cfg_template c \<noteq> Package"
    using that by (simp add: rewriteManifest_def Let_def update_conv' buildScripts_def)
  show ?thesis
  proof (cases "cfg_template c = Package")
    case True
    show ?thesis unfolding Let_def if_P [OF True] using run pkg [OF True] by blast
  next
    case False
    show ?thesis unfolding Let_def if_not_P [OF False] using run other [OF False] by blast
  qed
qed

theorem manifest_rewrite_witness:
  "exec (example_host [''npm'', ''git''] empty_dir) (cmd_init (packageManagerCommands NPM)) = None
   \<and> take 3 (fst (pipeline (example_host [''npm'', ''git''] empty_dir)
                  \<lparr>cfg_template = Package, cfg_git = False, cfg_eslint = False,
                   cfg_prettier = False, cfg_vscode = False, cfg_packageManager = NPM\<rparr>))
     = [Step ''Initializing package.json..'', Exec ''npm init -y'',
        OutputFile ''package.json''
          (JObj [(''name'', JStr ''@rbxts/demo''), (''version'', JStr ''1.0.0''),
                 (''scripts'', JObj [(''build'', JStr ''rbxtsc''), (''watch'', JStr ''rbxtsc -w''),
                                    (''prepublishOnly'', JStr ''npm run build'')]),
                 (''main'', JStr ''out/init.lua''), (''types'', JStr ''out/index.d.ts''),
                 (''files'', JArr [JStr ''out'', JStr ''!**/*.tsbuildinfo'']),
                 (''publishConfig'', JObj [(''access'', JStr ''public'')])])]
   \<and> exec (example_host [''pnpm'', ''git''] empty_dir) (cmd_init (packageManagerCommands PNPM)) = None
   \<and> take 3 (fst (pipeline (example_host [''pnpm'', ''git''] empty_dir)
                  \<lparr>cfg_template = Plugin, cfg_git = False, cfg_eslint = False,
                   cfg_prettier = False, cfg_vscode = False, cfg_packageManager = PNPM\<rparr>))
     = [Step ''Initializing package.json..'', Exec ''pnpm init'',
        OutputFile ''package.json''
          (JObj [(''name'', JStr ''demo''), (''version'', JStr ''1.0.0''),
                 (''scripts'', JObj [(''build'', JStr ''rbxtsc''),
                                    (''watch'', JStr ''rbxtsc -w'')])])]"
  using manifest_rewrite [of "example_host [''npm'', ''git''] empty_dir"
          "\<lparr>cfg_template = Package, cfg_git = False, cfg_eslint = False,
            cfg_prettier = False, cfg_vscode = False, cfg_packageManager = NPM\<rparr>"]
    manifest_rewrite [of "example_host [''pnpm'', ''git''] empty_dir"
          "\<lparr>cfg_template = Plugin, cfg_git = False, cfg_eslint = False,
            cfg_prettier = False, cfg_vscode = False, cfg_packageManager = PNPM\<rparr>"]
  by (simp add: example_defs paths_defs pipeline_defs)

end
